theory Spec2Isabelle
  imports Main
begin

section \<open>Data model: the tables of the persistent store\<close>

text \<open>
  Timestamps are seconds on the store's clock (\<open>CURRENT_TIMESTAMP\<close>); a string is the
  list of its bytes. Every table is the list of its rows in insertion order.
\<close>

record attempt_row =
  att_user_id :: string
  att_method :: string
  att_success :: bool
  att_ip_address :: "string option"
  att_created_at :: int

record otp_row =
  otp_email :: string
  otp_otp :: string
  otp_created_at :: int
  otp_expires_at :: int
  otp_is_used :: bool

record backup_code_row =
  bc_id :: nat
  bc_user_id :: string
  bc_code_hash :: string
  bc_is_used :: bool
  bc_used_at :: "int option"

record security_question_row =
  sq_id :: nat
  sq_user_id :: string
  sq_question :: string
  sq_answer_hash :: string

record authenticator_row =
  au_user_id :: string
  au_secret :: string
  au_is_verified :: bool
  au_created_at :: int

record device_session_row =
  ds_id :: string
  ds_user_id :: string
  ds_browser :: string
  ds_os :: string
  ds_ip_address :: string
  ds_is_blocked :: bool
  ds_last_active :: int

record settings_row =
  st_user_id :: string
  authenticator_enabled :: bool
  passkey_enabled :: bool
  one_time_code_enabled :: bool
  security_question_enabled :: bool
  is_2fa_enabled :: bool

record user_row =
  u_id :: string
  u_email :: string
  u_password :: string
  u_role :: string
  u_account_name :: string
  u_business_id :: "string option"
  u_is_active :: bool
  u_is_deleted :: bool
  u_last_login :: "int option"

record role_grant_row =
  rg_user_id :: string
  rg_role_id :: nat
  rg_role_name :: string
  rg_is_active :: bool

record business_row =
  b_id :: string
  b_is_active :: bool

record store =
  user_tbl :: "user_row list"
  otp_tbl :: "otp_row list"
  user_authenticator :: "authenticator_row list"
  user_security_question :: "security_question_row list"
  user_2fa_backup_code :: "backup_code_row list"
  user_2fa_attempt :: "attempt_row list"
  user_2fa_settings :: "settings_row list"
  device_session :: "device_session_row list"
  user_roles :: "role_grant_row list"
  business :: "business_row list"
  clock :: int

section \<open>Collaborators and exceptions\<close>

text \<open>
  Every call that leaves the process (a query of the store, bcrypt, the TOTP library, the
  device-information parser, the mailer) may throw. The operations are named here, and an
  environment says which of them throw during the call under consideration.
\<close>

datatype op =
    GetAuthenticatorSecret | Log2FAAttempt | VerifyToken | UpdateOtpStatus | InsertOtp
  | GetSecurityQuestions | BcryptCompare | TotpVerify | SelectBackupCodes
  | UseBackupCodeSelect | UseBackupCodeUpdate | GetRecentFailedAttempts
  | GetUserSessions | ExtractDeviceInfo | GetByEmail | GetById | Get2FASettings
  | GetUserRoleNames | CreateSession | UpdateLastLoggedIn | GetSessionById
  | BlockSession | DeleteSession | UpdateLastActive | GetBusinessById | SendEmail
  | BcryptHash | UpdatePassword

datatype exn = Thrown op | TokenExpiredError | JsonWebTokenError

record env =
  throws :: "op \<Rightarrow> bool"
  bcrypt_compare :: "string \<Rightarrow> string \<Rightarrow> bool"
  bcrypt_hash :: "string \<Rightarrow> string"
  totp_verify :: "string \<Rightarrow> string \<Rightarrow> bool"
  randomInt :: string
  uuidv4 :: string
  js_toLowerCase :: "string \<Rightarrow> string"
  js_trim :: "string \<Rightarrow> string"
  collation_key :: "string \<Rightarrow> string"

text \<open>
  \<open>js_toLowerCase\<close> and \<open>js_trim\<close> are the string built-ins of the language
  (\<open>String.prototype.toLowerCase\<close>, \<open>String.prototype.trim\<close>, over all of Unicode); the
  model takes them as they are, from the environment.

  The \<open>otp\<close> table compares its \<open>otp\<close> and \<open>email\<close> columns under the collation of the
  schema (\<open>utf8mb4_unicode_ci\<close>: letter case and trailing spaces do not count). Two
  strings are equal for the database when the collation gives them the same key;
  \<open>collation_key\<close> is that key.
\<close>

definition sql_eq :: "env \<Rightarrow> string \<Rightarrow> string \<Rightarrow> bool" where
  "sql_eq e a b = (collation_key e a = collation_key e b)"

record device_info =
  ipAddress :: string
  browser :: string
  os :: string

text \<open>
  A request carries the client address that \<open>requestIp.getClientIp\<close> reports and the
  result of \<open>extractDeviceInfo\<close> (user-agent and geo-IP parsing are outside the model).
\<close>

record request =
  client_ip :: "string option"
  device :: device_info

definition getClientIp :: "request option \<Rightarrow> string option" where
  "getClientIp req = (case req of None \<Rightarrow> None | Some r \<Rightarrow> client_ip r)"

section \<open>Tokens (jsonwebtoken)\<close>

text \<open>
  A payload field that the signer leaves out reads as \<open>undefined\<close>, which is falsy: it is
  \<open>False\<close> here. A token is either signed with the configured secret, with its payload and
  expiry time, or anything else (malformed, or signed with another key). \<open>jwt.verify\<close>
  throws on the latter and on an expired token.
\<close>

record payload =
  p_id :: string
  p_role :: string
  p_temp :: bool
  p_temp2FA :: bool

datatype token = Signed payload int | Malformed

definition jwt_sign :: "store \<Rightarrow> payload \<Rightarrow> int \<Rightarrow> token" where
  "jwt_sign s p expiresIn = Signed p (clock s + expiresIn)"

definition jwt_verify :: "store \<Rightarrow> token \<Rightarrow> exn + payload" where
  "jwt_verify s t =
     (case t of
        Malformed \<Rightarrow> Inl JsonWebTokenError
      | Signed p ex \<Rightarrow> if clock s \<ge> ex then Inl TokenExpiredError else Inr p)"

section \<open>Responses\<close>

record public_user =
  pu_id :: string
  pu_email :: string
  pu_role :: string
  pu_account_name :: string
  pu_is_active :: bool

record available_methods =
  am_authenticator :: bool
  am_oneTimeCode :: bool
  am_securityQuestion :: bool
  am_backupCode :: bool

datatype body =
    ErrorBody string
  | MessageBody string
  | Require2FA token available_methods public_user
  | RequireRoleSelection token "string list" public_user
  | LoggedIn token public_user

record response =
  resp_code :: nat
  resp_body :: body

definition Response_error :: "string \<Rightarrow> nat \<Rightarrow> response" where
  "Response_error message c = \<lparr>resp_code = c, resp_body = ErrorBody message\<rparr>"

definition Response_okMessage :: "string \<Rightarrow> response" where
  "Response_okMessage message = \<lparr>resp_code = 200, resp_body = MessageBody message\<rparr>"

definition Response_ok :: "body \<Rightarrow> response" where
  "Response_ok b = \<lparr>resp_code = 200, resp_body = b\<rparr>"

definition is_error :: "response \<Rightarrow> bool" where
  "is_error r = (resp_code r < 200 \<or> resp_code r \<ge> 300)"

section \<open>The attempt ledger (models/twoFactor)\<close>

definition log2FAAttempt ::
  "env \<Rightarrow> store \<Rightarrow> string \<Rightarrow> string \<Rightarrow> bool \<Rightarrow> string option \<Rightarrow> exn + store" where
  "log2FAAttempt e s userId method success ip =
     (if throws e Log2FAAttempt then Inl (Thrown Log2FAAttempt)
      else Inr (s\<lparr>user_2fa_attempt := user_2fa_attempt s @
             [\<lparr>att_user_id = userId, att_method = method, att_success = success,
               att_ip_address = ip, att_created_at = clock s\<rparr>]\<rparr>))"



section \<open>The OTP table (models/auth)\<close>

text \<open>
  \<open>INSERT INTO otp (email, otp)\<close>: the schema's defaults fill the other columns
  (\<open>expires_at\<close> is ten minutes after the insertion, \<open>is_used\<close> is false).
\<close>

definition insertOtp :: "env \<Rightarrow> store \<Rightarrow> string \<Rightarrow> string \<Rightarrow> exn + store" where
  "insertOtp e s email otp =
     (if throws e InsertOtp then Inl (Thrown InsertOtp)
      else Inr (s\<lparr>otp_tbl := otp_tbl s @
             [\<lparr>otp_email = email, otp_otp = otp, otp_created_at = clock s,
               otp_expires_at = clock s + 10 * 60, otp_is_used = False\<rparr>]\<rparr>))"

definition otp_matches :: "env \<Rightarrow> store \<Rightarrow> string \<Rightarrow> string \<Rightarrow> otp_row list" where
  "otp_matches e s email otp =
     filter (\<lambda>r. sql_eq e (otp_otp r) otp \<and> sql_eq e (otp_email r) email
                  \<and> otp_expires_at r > clock s \<and> \<not> otp_is_used r) (otp_tbl s)"

definition verifyToken :: "env \<Rightarrow> store \<Rightarrow> string \<Rightarrow> string \<Rightarrow> exn + bool" where
  "verifyToken e s email otp =
     (if throws e VerifyToken then Inl (Thrown VerifyToken)
      else Inr (length (otp_matches e s email otp) > 0))"

definition updateOtpStatus :: "env \<Rightarrow> store \<Rightarrow> string \<Rightarrow> exn + store" where
  "updateOtpStatus e s email =
     (if throws e UpdateOtpStatus then Inl (Thrown UpdateOtpStatus)
      else Inr (s\<lparr>otp_tbl :=
             map (\<lambda>r. if sql_eq e (otp_email r) email then r\<lparr>otp_is_used := True\<rparr> else r)
                 (otp_tbl s)\<rparr>))"

section \<open>Authenticator secrets, security questions, backup codes (models/twoFactor)\<close>

text \<open>
  \<open>getAuthenticatorSecret\<close> returns the user's newest row
  (\<open>ORDER BY created_at DESC LIMIT 1\<close>) or null.
\<close>

fun newest :: "authenticator_row list \<Rightarrow> authenticator_row option" where
  "newest [] = None"
| "newest (a # as) =
     (case newest as of
        None \<Rightarrow> Some a
      | Some b \<Rightarrow> if au_created_at b > au_created_at a then Some b else Some a)"

definition getAuthenticatorSecret ::
  "env \<Rightarrow> store \<Rightarrow> string \<Rightarrow> exn + authenticator_row option" where
  "getAuthenticatorSecret e s userId =
     (if throws e GetAuthenticatorSecret then Inl (Thrown GetAuthenticatorSecret)
      else Inr (newest (filter (\<lambda>a. au_user_id a = userId) (user_authenticator s))))"

text \<open>\<open>getSecurityQuestions\<close>: the user's rows, \<open>ORDER BY id\<close>.\<close>

definition getSecurityQuestions ::
  "env \<Rightarrow> store \<Rightarrow> string \<Rightarrow> exn + security_question_row list" where
  "getSecurityQuestions e s userId =
     (if throws e GetSecurityQuestions then Inl (Thrown GetSecurityQuestions)
      else Inr (sort_key sq_id (filter (\<lambda>q. sq_user_id q = userId) (user_security_question s))))"

definition unused_codes :: "store \<Rightarrow> string \<Rightarrow> backup_code_row list" where
  "unused_codes s userId =
     filter (\<lambda>c. bc_user_id c = userId \<and> \<not> bc_is_used c) (user_2fa_backup_code s)"

definition mark_used :: "store \<Rightarrow> nat \<Rightarrow> store" where
  "mark_used s i =
     s\<lparr>user_2fa_backup_code :=
         map (\<lambda>c. if bc_id c = i then c\<lparr>bc_is_used := True, bc_used_at := Some (clock s)\<rparr> else c)
             (user_2fa_backup_code s)\<rparr>"

text \<open>
  \<open>useBackupCode\<close> is two queries: a SELECT of the unused rows with this hash, then an
  UPDATE by id of the first row found.
\<close>

definition useBackupCode :: "env \<Rightarrow> store \<Rightarrow> string \<Rightarrow> string \<Rightarrow> exn + (bool \<times> store)" where
  "useBackupCode e s userId codeHash =
     (if throws e UseBackupCodeSelect then Inl (Thrown UseBackupCodeSelect)
      else case filter (\<lambda>c. bc_code_hash c = codeHash) (unused_codes s userId) of
          [] \<Rightarrow> Inr (False, s)
        | c # _ \<Rightarrow>
            if throws e UseBackupCodeUpdate then Inl (Thrown UseBackupCodeUpdate)
            else Inr (True, mark_used s (bc_id c)))"

section \<open>The factor verifiers (services/twoFactorVerification)\<close>

text \<open>
  Each verifier is one \<open>try\<close> block whose \<open>catch\<close> returns false: an exception leaves
  the store as the statements before it made it. A verifier returns its verdict and the
  store after the call.
\<close>

definition verifyAuthenticatorCode ::
  "env \<Rightarrow> store \<Rightarrow> string \<Rightarrow> string \<Rightarrow> request option \<Rightarrow> bool \<times> store" where
  "verifyAuthenticatorCode e s userId token req =
     (case getAuthenticatorSecret e s userId of
        Inl _ \<Rightarrow> (False, s)
      | Inr None \<Rightarrow> (False, s)
      | Inr (Some authData) \<Rightarrow>
          if \<not> au_is_verified authData then (False, s)
          else if throws e TotpVerify then (False, s)
          else let isValid = totp_verify e (au_secret authData) token in
            (case log2FAAttempt e s userId ''authenticator'' isValid (getClientIp req) of
               Inl _ \<Rightarrow> (False, s)
             | Inr s1 \<Rightarrow> (isValid, s1)))"

definition verifyOneTimeCode ::
  "env \<Rightarrow> store \<Rightarrow> string \<Rightarrow> string \<Rightarrow> string \<Rightarrow> request option \<Rightarrow> bool \<times> store" where
  "verifyOneTimeCode e s userId email otp req =
     (case verifyToken e s email otp of
        Inl _ \<Rightarrow> (False, s)
      | Inr isValid \<Rightarrow>
          (case log2FAAttempt e s userId ''one_time_code'' isValid (getClientIp req) of
             Inl _ \<Rightarrow> (False, s)
           | Inr s1 \<Rightarrow>
               if isValid then
                 (case updateOtpStatus e s1 email of
                    Inl _ \<Rightarrow> (False, s1)
                  | Inr s2 \<Rightarrow> (True, s2))
               else (False, s1)))"

record answer =
  ans_id :: nat
  ans_answer :: string

text \<open>
  The loop over the supplied answers: \<open>Inr True\<close> is the \<open>break\<close> at the first correct
  answer, \<open>Inr False\<close> the end of the list, \<open>Inl\<close> a throw inside the loop.
\<close>

fun check_answers :: "env \<Rightarrow> security_question_row list \<Rightarrow> answer list \<Rightarrow> exn + bool" where
  "check_answers e questions [] = Inr False"
| "check_answers e questions (a # as) =
     (case find (\<lambda>q. sq_id q = ans_id a) questions of
        None \<Rightarrow> check_answers e questions as
      | Some question \<Rightarrow>
          if throws e BcryptCompare then Inl (Thrown BcryptCompare)
          else if bcrypt_compare e (js_trim e (js_toLowerCase e (ans_answer a)))
                    (sq_answer_hash question)
               then Inr True
               else check_answers e questions as)"

definition log_no_answers :: "env \<Rightarrow> store \<Rightarrow> string \<Rightarrow> request option \<Rightarrow> bool \<times> store" where
  "log_no_answers e s userId req =
     (case log2FAAttempt e s userId ''security_question'' False (getClientIp req) of
        Inl _ \<Rightarrow> (False, s)
      | Inr s1 \<Rightarrow> (False, s1))"

definition verifySecurityQuestionsCode ::
  "env \<Rightarrow> store \<Rightarrow> string \<Rightarrow> answer list option \<Rightarrow> request option \<Rightarrow> bool \<times> store" where
  "verifySecurityQuestionsCode e s userId answers req =
     (case getSecurityQuestions e s userId of
        Inl _ \<Rightarrow> (False, s)
      | Inr questions \<Rightarrow>
          if length questions = 0 then (False, s)
          else
            (case answers of
               None \<Rightarrow> log_no_answers e s userId req
             | Some as \<Rightarrow>
                 if length as = 0 then log_no_answers e s userId req
                 else
                   (case check_answers e questions as of
                      Inl _ \<Rightarrow> (False, s)
                    | Inr atLeastOneCorrect \<Rightarrow>
                        (case log2FAAttempt e s userId ''security_question'' atLeastOneCorrect
                                (getClientIp req) of
                           Inl _ \<Rightarrow> (False, s)
                         | Inr s1 \<Rightarrow> (atLeastOneCorrect, s1)))))"

text \<open>
  The scan of the unused codes; the empty list is the code after the loop (log the
  failure, return false).
\<close>

fun scan_codes ::
  "env \<Rightarrow> store \<Rightarrow> string \<Rightarrow> string \<Rightarrow> request option \<Rightarrow> backup_code_row list \<Rightarrow> bool \<times> store" where
  "scan_codes e s userId code req [] =
     (case log2FAAttempt e s userId ''backup_code'' False (getClientIp req) of
        Inl _ \<Rightarrow> (False, s)
      | Inr s1 \<Rightarrow> (False, s1))"
| "scan_codes e s userId code req (storedCode # rest) =
     (if throws e BcryptCompare then (False, s)
      else if bcrypt_compare e code (bc_code_hash storedCode) then
        (case useBackupCode e s userId (bc_code_hash storedCode) of
           Inl _ \<Rightarrow> (False, s)
         | Inr (_, s1) \<Rightarrow>
             (case log2FAAttempt e s1 userId ''backup_code'' True (getClientIp req) of
                Inl _ \<Rightarrow> (False, s1)
              | Inr s2 \<Rightarrow> (True, s2)))
      else scan_codes e s userId code req rest)"

definition verifyBackupCode ::
  "env \<Rightarrow> store \<Rightarrow> string \<Rightarrow> string \<Rightarrow> request option \<Rightarrow> bool \<times> store" where
  "verifyBackupCode e s userId code req =
     (if throws e SelectBackupCodes then (False, s)
      else scan_codes e s userId code req (unused_codes s userId))"




section \<open>Users, roles, settings, device sessions (models)\<close>

definition getByEmail :: "env \<Rightarrow> store \<Rightarrow> string \<Rightarrow> exn + user_row option" where
  "getByEmail e s email =
     (if throws e GetByEmail then Inl (Thrown GetByEmail)
      else Inr (find (\<lambda>u. u_email u = email) (user_tbl s)))"

definition getById :: "env \<Rightarrow> store \<Rightarrow> string \<Rightarrow> exn + user_row option" where
  "getById e s i =
     (if throws e GetById then Inl (Thrown GetById)
      else Inr (find (\<lambda>u. u_id u = i) (user_tbl s)))"

definition updateLastLoggedIn :: "env \<Rightarrow> store \<Rightarrow> string \<Rightarrow> exn + store" where
  "updateLastLoggedIn e s i =
     (if throws e UpdateLastLoggedIn then Inl (Thrown UpdateLastLoggedIn)
      else Inr (s\<lparr>user_tbl :=
             map (\<lambda>u. if u_id u = i then u\<lparr>u_last_login := Some (clock s)\<rparr> else u) (user_tbl s)\<rparr>))"

definition updatePassword :: "env \<Rightarrow> store \<Rightarrow> string \<Rightarrow> string \<Rightarrow> exn + store" where
  "updatePassword e s i hashedPassword =
     (if throws e UpdatePassword then Inl (Thrown UpdatePassword)
      else Inr (s\<lparr>user_tbl :=
             map (\<lambda>u. if u_id u = i then u\<lparr>u_password := hashedPassword\<rparr> else u) (user_tbl s)\<rparr>))"

definition get2FASettings :: "env \<Rightarrow> store \<Rightarrow> string \<Rightarrow> exn + settings_row option" where
  "get2FASettings e s userId =
     (if throws e Get2FASettings then Inl (Thrown Get2FASettings)
      else Inr (find (\<lambda>t. st_user_id t = userId) (user_2fa_settings s)))"

text \<open>The active grants of the user, \<open>ORDER BY r.id DESC\<close>.\<close>

definition getUserRoleNames :: "env \<Rightarrow> store \<Rightarrow> string \<Rightarrow> exn + string list" where
  "getUserRoleNames e s userId =
     (if throws e GetUserRoleNames then Inl (Thrown GetUserRoleNames)
      else Inr (map rg_role_name (rev (sort_key rg_role_id
             (filter (\<lambda>g. rg_user_id g = userId \<and> rg_is_active g) (user_roles s))))))"

definition getBusinessById :: "env \<Rightarrow> store \<Rightarrow> string \<Rightarrow> exn + business_row option" where
  "getBusinessById e s i =
     (if throws e GetBusinessById then Inl (Thrown GetBusinessById)
      else Inr (find (\<lambda>b. b_id b = i) (business s)))"

text \<open>The sessions of the user, \<open>ORDER BY last_active DESC\<close>.\<close>

definition getUserSessions :: "env \<Rightarrow> store \<Rightarrow> string \<Rightarrow> exn + device_session_row list" where
  "getUserSessions e s userId =
     (if throws e GetUserSessions then Inl (Thrown GetUserSessions)
      else Inr (rev (sort_key ds_last_active
             (filter (\<lambda>x. ds_user_id x = userId) (device_session s)))))"

definition getSessionById :: "env \<Rightarrow> store \<Rightarrow> string \<Rightarrow> exn + device_session_row option" where
  "getSessionById e s sessionId =
     (if throws e GetSessionById then Inl (Thrown GetSessionById)
      else Inr (find (\<lambda>x. ds_id x = sessionId) (device_session s)))"

definition createSession :: "env \<Rightarrow> store \<Rightarrow> string \<Rightarrow> device_info \<Rightarrow> exn + (string \<times> store)" where
  "createSession e s userId d =
     (if throws e CreateSession then Inl (Thrown CreateSession)
      else Inr (uuidv4 e, s\<lparr>device_session := device_session s @
             [\<lparr>ds_id = uuidv4 e, ds_user_id = userId, ds_browser = browser d, ds_os = os d,
               ds_ip_address = ipAddress d, ds_is_blocked = False, ds_last_active = clock s\<rparr>]\<rparr>))"

definition blockSession :: "env \<Rightarrow> store \<Rightarrow> string \<Rightarrow> exn + store" where
  "blockSession e s sessionId =
     (if throws e BlockSession then Inl (Thrown BlockSession)
      else Inr (s\<lparr>device_session :=
             map (\<lambda>x. if ds_id x = sessionId \<and> \<not> ds_is_blocked x
                       then x\<lparr>ds_is_blocked := True, ds_last_active := clock s\<rparr> else x)
                 (device_session s)\<rparr>))"

definition deleteSession :: "env \<Rightarrow> store \<Rightarrow> string \<Rightarrow> exn + store" where
  "deleteSession e s sessionId =
     (if throws e DeleteSession then Inl (Thrown DeleteSession)
      else Inr (s\<lparr>device_session := filter (\<lambda>x. ds_id x \<noteq> sessionId) (device_session s)\<rparr>))"

definition updateLastActive :: "env \<Rightarrow> store \<Rightarrow> string \<Rightarrow> exn + store" where
  "updateLastActive e s sessionId =
     (if throws e UpdateLastActive then Inl (Thrown UpdateLastActive)
      else Inr (s\<lparr>device_session :=
             map (\<lambda>x. if ds_id x = sessionId then x\<lparr>ds_last_active := clock s\<rparr> else x)
                 (device_session s)\<rparr>))"

section \<open>Device fingerprints (utils/deviceInfo)\<close>

definition same_device :: "device_info \<Rightarrow> device_session_row \<Rightarrow> bool" where
  "same_device d x =
     (ipAddress d = ds_ip_address x \<and> browser d = ds_browser x \<and> os d = ds_os x)"

text \<open>\<open>extractDeviceInfo\<close> may throw; the parsed result is the request's \<open>device\<close>.\<close>

definition extractDeviceInfo :: "env \<Rightarrow> request \<Rightarrow> exn + device_info" where
  "extractDeviceInfo e r =
     (if throws e ExtractDeviceInfo then Inl (Thrown ExtractDeviceInfo) else Inr (device r))"

definition isCurrentDevice :: "env \<Rightarrow> request \<Rightarrow> device_session_row \<Rightarrow> exn + bool" where
  "isCurrentDevice e r sessionData =
     (case extractDeviceInfo e r of
        Inl x \<Rightarrow> Inl x
      | Inr currentDevice \<Rightarrow> Inr (same_device currentDevice sessionData))"

section \<open>Login (services/auth)\<close>

definition isDeviceBlocked :: "env \<Rightarrow> store \<Rightarrow> string \<Rightarrow> request option \<Rightarrow> bool" where
  "isDeviceBlocked e s userId req =
     (case req of
        None \<Rightarrow> False
      | Some r \<Rightarrow>
          (case extractDeviceInfo e r of
             Inl _ \<Rightarrow> False
           | Inr deviceInfo \<Rightarrow>
               (case getUserSessions e s userId of
                  Inl _ \<Rightarrow> False
                | Inr sessions \<Rightarrow>
                    (case find (\<lambda>x. ds_is_blocked x \<and> ds_ip_address x = ipAddress deviceInfo
                                     \<and> ds_browser x = browser deviceInfo \<and> ds_os x = os deviceInfo)
                            sessions of
                       None \<Rightarrow> False
                     | Some _ \<Rightarrow> True))))"

definition device_blocked_response :: response where
  "device_blocked_response = Response_error
     ''This device has been blocked from accessing this account. Please contact support or unblock from another device.''
     403"

definition public :: "user_row \<Rightarrow> public_user" where
  "public u = \<lparr>pu_id = u_id u, pu_email = u_email u, pu_role = u_role u,
      pu_account_name = u_account_name u, pu_is_active = u_is_active u\<rparr>"

text \<open>
  The device session of a login is created inside its own \<open>try\<close>: a throw is logged and
  the login goes on.
\<close>

definition create_device_session :: "env \<Rightarrow> store \<Rightarrow> string \<Rightarrow> request option \<Rightarrow> store" where
  "create_device_session e s userId req =
     (case req of
        None \<Rightarrow> s
      | Some r \<Rightarrow>
          (case extractDeviceInfo e r of
             Inl _ \<Rightarrow> s
           | Inr deviceInfo \<Rightarrow>
               (case createSession e s userId deviceInfo of
                  Inl _ \<Rightarrow> s
                | Inr (_, s1) \<Rightarrow> s1)))"

definition issue_session ::
  "env \<Rightarrow> store \<Rightarrow> user_row \<Rightarrow> request option \<Rightarrow> (exn + response) \<times> store" where
  "issue_session e s user req =
     (let token = jwt_sign s \<lparr>p_id = u_id user, p_role = u_role user, p_temp = False,
                               p_temp2FA = False\<rparr> (7 * 24 * 3600);
          s1 = create_device_session e s (u_id user) req
      in case updateLastLoggedIn e s1 (u_id user) of
           Inl x \<Rightarrow> (Inl x, s1)
         | Inr s2 \<Rightarrow> (Inr (Response_ok (LoggedIn token (public user))), s2))"

definition role_decision ::
  "env \<Rightarrow> store \<Rightarrow> user_row \<Rightarrow> request option \<Rightarrow> (exn + response) \<times> store" where
  "role_decision e s user req =
     (if u_role user = ''super_admin'' then
        (case getUserRoleNames e s (u_id user) of
           Inl x \<Rightarrow> (Inl x, s)
         | Inr userRoleNames \<Rightarrow>
             if length userRoleNames > 1 then
               (Inr (Response_ok (RequireRoleSelection
                  (jwt_sign s \<lparr>p_id = u_id user, p_role = u_role user, p_temp = True,
                                p_temp2FA = False\<rparr> (10 * 60))
                  userRoleNames (public user))), s)
             else issue_session e s user req)
      else issue_session e s user req)"

definition factor_decision ::
  "env \<Rightarrow> store \<Rightarrow> user_row \<Rightarrow> request option \<Rightarrow> (exn + response) \<times> store" where
  "factor_decision e s user req =
     (case get2FASettings e s (u_id user) of
        Inl x \<Rightarrow> (Inl x, s)
      | Inr None \<Rightarrow> role_decision e s user req
      | Inr (Some twoFASettings) \<Rightarrow>
          if is_2fa_enabled twoFASettings then
            (Inr (Response_ok (Require2FA
               (jwt_sign s \<lparr>p_id = u_id user, p_role = u_role user, p_temp = False,
                             p_temp2FA = True\<rparr> (10 * 60))
               \<lparr>am_authenticator = authenticator_enabled twoFASettings,
                 am_oneTimeCode = one_time_code_enabled twoFASettings,
                 am_securityQuestion = security_question_enabled twoFASettings,
                 am_backupCode = True\<rparr>
               (public user))), s)
          else role_decision e s user req)"

definition login ::
  "env \<Rightarrow> store \<Rightarrow> string \<Rightarrow> string \<Rightarrow> request option \<Rightarrow> (exn + response) \<times> store" where
  "login e s email password req =
     (case getByEmail e s email of
        Inl x \<Rightarrow> (Inl x, s)
      | Inr None \<Rightarrow> (Inr (Response_error ''User does not exist'' 404), s)
      | Inr (Some user) \<Rightarrow>
          if throws e BcryptCompare then (Inl (Thrown BcryptCompare), s)
          else if \<not> bcrypt_compare e password (u_password user) then
            (Inr (Response_error ''Invalid password'' 400), s)
          else if u_is_deleted user then (Inr (Response_error ''User not found'' 404), s)
          else if isDeviceBlocked e s (u_id user) req then (Inr device_blocked_response, s)
          else factor_decision e s user req)"

section \<open>One-time codes by e-mail: password reset and second factor\<close>

definition reset_code_sent :: response where
  "reset_code_sent = Response_okMessage
     ''If an account with that email exists, a password reset code has been sent.''"

definition requestPasswordResetOTP ::
  "env \<Rightarrow> store \<Rightarrow> string \<Rightarrow> (exn + response) \<times> store" where
  "requestPasswordResetOTP e s email =
     (case getByEmail e s email of
        Inl x \<Rightarrow> (Inl x, s)
      | Inr None \<Rightarrow> (Inr reset_code_sent, s)
      | Inr (Some user) \<Rightarrow>
          if u_is_deleted user then (Inr reset_code_sent, s)
          else if u_role user \<noteq> ''super_admin'' then (Inr reset_code_sent, s)
          else
            (case insertOtp e s (u_email user) (randomInt e) of
               Inl x \<Rightarrow> (Inl x, s)
             | Inr s1 \<Rightarrow>
                 if throws e SendEmail then
                   (Inr (Response_error
                      ''Failed to send password reset code. Please try again later.'' 500), s1)
                 else (Inr reset_code_sent, s1)))"

text \<open>\<open>sendOneTimeCode\<close> of the two-factor service: the same table, the same mail.\<close>

definition sendOneTimeCode :: "env \<Rightarrow> store \<Rightarrow> user_row \<Rightarrow> (exn + response) \<times> store" where
  "sendOneTimeCode e s user =
     (case insertOtp e s (u_email user) (randomInt e) of
        Inl x \<Rightarrow> (Inl x, s)
      | Inr s1 \<Rightarrow>
          if throws e SendEmail then (Inl (Thrown SendEmail), s1)
          else (Inr (Response_okMessage ''Verification code sent to your email''), s1))"

definition resetPasswordWithOTP ::
  "env \<Rightarrow> store \<Rightarrow> string \<Rightarrow> string \<Rightarrow> string \<Rightarrow> (exn + response) \<times> store" where
  "resetPasswordWithOTP e s email otp password =
     (case getByEmail e s email of
        Inl x \<Rightarrow> (Inl x, s)
      | Inr None \<Rightarrow> (Inr (Response_error ''Invalid credentials'' 400), s)
      | Inr (Some user) \<Rightarrow>
          if u_is_deleted user then (Inr (Response_error ''Invalid credentials'' 400), s)
          else if u_role user \<noteq> ''super_admin'' then
            (Inr (Response_error ''Invalid credentials'' 400), s)
          else
            (case verifyToken e s email otp of
               Inl x \<Rightarrow> (Inl x, s)
             | Inr isValidOTP \<Rightarrow>
                 if \<not> isValidOTP then (Inr (Response_error ''Invalid or expired OTP code'' 400), s)
                 else if throws e BcryptHash then (Inl (Thrown BcryptHash), s)
                 else
                   (case updatePassword e s (u_id user) (bcrypt_hash e password) of
                      Inl x \<Rightarrow> (Inl x, s)
                    | Inr s1 \<Rightarrow>
                        (case updateOtpStatus e s1 email of
                           Inl x \<Rightarrow> (Inl x, s1)
                         | Inr s2 \<Rightarrow>
                             (Inr (Response_okMessage
                                ''Password has been reset successfully. You can now login with your new password.''),
                              s2)))))"

section \<open>Self-service device management (services/deviceSession)\<close>

definition blockDevice ::
  "env \<Rightarrow> store \<Rightarrow> string \<Rightarrow> string \<Rightarrow> request option \<Rightarrow> (exn + response) \<times> store" where
  "blockDevice e s userId sessionId req =
     (case getSessionById e s sessionId of
        Inl x \<Rightarrow> (Inl x, s)
      | Inr None \<Rightarrow> (Inr (Response_error ''Device session not found'' 404), s)
      | Inr (Some session) \<Rightarrow>
          if ds_user_id session \<noteq> userId then
            (Inr (Response_error ''Unauthorized to block this device'' 403), s)
          else
            (case (case req of None \<Rightarrow> Inr False | Some r \<Rightarrow> isCurrentDevice e r session) of
               Inl x \<Rightarrow> (Inl x, s)
             | Inr True \<Rightarrow> (Inr (Response_error ''Cannot block your current device'' 400), s)
             | Inr False \<Rightarrow>
                 (case blockSession e s sessionId of
                    Inl x \<Rightarrow> (Inl x, s)
                  | Inr s1 \<Rightarrow>
                      (Inr (Response_okMessage
                         ''Device blocked successfully. This device can no longer access your account.''),
                       s1))))"

definition revokeDevice ::
  "env \<Rightarrow> store \<Rightarrow> string \<Rightarrow> string \<Rightarrow> request option \<Rightarrow> (exn + response) \<times> store" where
  "revokeDevice e s userId sessionId req =
     (case getSessionById e s sessionId of
        Inl x \<Rightarrow> (Inl x, s)
      | Inr None \<Rightarrow> (Inr (Response_error ''Device session not found'' 404), s)
      | Inr (Some session) \<Rightarrow>
          if ds_user_id session \<noteq> userId then
            (Inr (Response_error ''Unauthorized to revoke this device'' 403), s)
          else
            (case (case req of None \<Rightarrow> Inr False | Some r \<Rightarrow> isCurrentDevice e r session) of
               Inl x \<Rightarrow> (Inl x, s)
             | Inr True \<Rightarrow>
                 (Inr (Response_error ''Cannot revoke your current device session'' 400), s)
             | Inr False \<Rightarrow>
                 (case deleteSession e s sessionId of
                    Inl x \<Rightarrow> (Inl x, s)
                  | Inr s1 \<Rightarrow>
                      (Inr (Response_okMessage
                         ''Device session revoked successfully. This device has been logged out.''),
                       s1))))"

section \<open>Authentication middleware (middleware/auth, middleware/businessAuth)\<close>

text \<open>
  A middleware either sends a response or calls \<open>next()\<close> with the user and the effective
  role attached to the request. The bearer token is the parsed \<open>Authorization\<close> header.
\<close>

record auth_context =
  req_user :: user_row
  req_role :: string

datatype outcome = Sent response | Next auth_context

text \<open>
  \<open>checkDeviceBlocked\<close>: the first session with the caller's fingerprint decides; any
  throw is caught and the request goes on.
\<close>

definition checkDeviceBlocked ::
  "env \<Rightarrow> store \<Rightarrow> auth_context \<Rightarrow> request \<Rightarrow> outcome \<times> store" where
  "checkDeviceBlocked e s ctx r =
     (if u_id (req_user ctx) = [] then (Next ctx, s) else
      case extractDeviceInfo e r of
        Inl _ \<Rightarrow> (Next ctx, s)
      | Inr deviceInfo \<Rightarrow>
          (case getUserSessions e s (u_id (req_user ctx)) of
             Inl _ \<Rightarrow> (Next ctx, s)
           | Inr sessions \<Rightarrow>
               (case find (\<lambda>x. ds_ip_address x = ipAddress deviceInfo
                                \<and> ds_browser x = browser deviceInfo \<and> ds_os x = os deviceInfo)
                       sessions of
                  None \<Rightarrow> (Next ctx, s)
                | Some currentSession \<Rightarrow>
                    if ds_is_blocked currentSession then (Sent device_blocked_response, s)
                    else (case updateLastActive e s (ds_id currentSession) of
                            Inl _ \<Rightarrow> (Next ctx, s)
                          | Inr s1 \<Rightarrow> (Next ctx, s1)))))"

definition auth_catch :: "exn \<Rightarrow> response" where
  "auth_catch x =
     (case x of
        TokenExpiredError \<Rightarrow> Response_error ''Token expired. Please log in again.'' 401
      | JsonWebTokenError \<Rightarrow> Response_error ''Invalid token. Please log in again.'' 401
      | Thrown _ \<Rightarrow> Response_error ''Authentication failed'' 401)"

definition authenticate ::
  "env \<Rightarrow> store \<Rightarrow> token option \<Rightarrow> request \<Rightarrow> outcome \<times> store" where
  "authenticate e s bearer r =
     (case bearer of
        None \<Rightarrow> (Sent (Response_error ''Authentication required. Please log in.'' 401), s)
      | Some token \<Rightarrow>
          (case jwt_verify s token of
             Inl x \<Rightarrow> (Sent (auth_catch x), s)
           | Inr decoded \<Rightarrow>
               if p_temp decoded \<or> p_temp2FA decoded then
                 (Sent (Response_error ''Please complete authentication process first'' 401), s)
               else
                 (case getById e s (p_id decoded) of
                    Inl x \<Rightarrow> (Sent (auth_catch x), s)
                  | Inr None \<Rightarrow>
                      (Sent (Response_error ''User not found or account deactivated'' 401), s)
                  | Inr (Some user) \<Rightarrow>
                      if u_is_deleted user then
                        (Sent (Response_error ''User not found or account deactivated'' 401), s)
                      else if \<not> u_is_active user then
                        (Sent (Response_error ''Account is inactive'' 403), s)
                      else checkDeviceBlocked e s
                             \<lparr>req_user = user, req_role = p_role decoded\<rparr> r)))"

definition authenticateSuperAdmin ::
  "env \<Rightarrow> store \<Rightarrow> token option \<Rightarrow> request \<Rightarrow> outcome \<times> store" where
  "authenticateSuperAdmin e s bearer r =
     (case bearer of
        None \<Rightarrow> (Sent (Response_error ''Authentication required. Please log in.'' 401), s)
      | Some token \<Rightarrow>
          (case jwt_verify s token of
             Inl x \<Rightarrow> (Sent (auth_catch x), s)
           | Inr decoded \<Rightarrow>
               if p_temp decoded then
                 (Sent (Response_error ''Please complete role selection first'' 401), s)
               else
                 (case getById e s (p_id decoded) of
                    Inl x \<Rightarrow> (Sent (auth_catch x), s)
                  | Inr None \<Rightarrow>
                      (Sent (Response_error ''User not found or account deactivated'' 401), s)
                  | Inr (Some user) \<Rightarrow>
                      if u_is_deleted user then
                        (Sent (Response_error ''User not found or account deactivated'' 401), s)
                      else if \<not> u_is_active user then
                        (Sent (Response_error ''Account is inactive'' 403), s)
                      else if p_role decoded \<noteq> ''super_admin'' then
                        (Sent (Response_error ''Only super admin can perform this action'' 403), s)
                      else checkDeviceBlocked e s
                             \<lparr>req_user = user, req_role = p_role decoded\<rparr> r)))"

definition ADMIN_ROLES :: "string list" where
  "ADMIN_ROLES = [''admin'', ''super_admin'', ''manager'']"

definition invalid_token :: response where
  "invalid_token = Response_error ''Invalid token'' 401"

definition authenticateBusinessAdmin ::
  "env \<Rightarrow> store \<Rightarrow> token option \<Rightarrow> request \<Rightarrow> outcome \<times> store" where
  "authenticateBusinessAdmin e s bearer r =
     (case bearer of
        None \<Rightarrow> (Sent (Response_error ''Unauthorized'' 401), s)
      | Some token \<Rightarrow>
          (case jwt_verify s token of
             Inl _ \<Rightarrow> (Sent invalid_token, s)
           | Inr decoded \<Rightarrow>
               if p_temp decoded then
                 (Sent (Response_error ''Please complete role selection first'' 401), s)
               else
                 (case getById e s (p_id decoded) of
                    Inl _ \<Rightarrow> (Sent invalid_token, s)
                  | Inr None \<Rightarrow> (Sent (Response_error ''Unauthorized'' 401), s)
                  | Inr (Some user) \<Rightarrow>
                      if u_account_name user \<noteq> ''business'' then
                        (Sent (Response_error ''Only business accounts can manage users'' 403), s)
                      else if p_role decoded \<notin> set ADMIN_ROLES then
                        (Sent (Response_error ''Only admins can manage business users'' 403), s)
                      else
                        (case u_business_id user of
                           None \<Rightarrow>
                             (Sent (Response_error ''User must be associated with a business'' 403), s)
                         | Some bid \<Rightarrow>
                             (case getBusinessById e s bid of
                                Inl _ \<Rightarrow> (Sent invalid_token, s)
                              | Inr None \<Rightarrow>
                                  (Sent (Response_error ''Business not found or inactive'' 404), s)
                              | Inr (Some b) \<Rightarrow>
                                  if \<not> b_is_active b then
                                    (Sent (Response_error ''Business not found or inactive'' 404), s)
                                  else checkDeviceBlocked e s
                                         \<lparr>req_user = user, req_role = p_role decoded\<rparr> r)))))"

section \<open>Backup-code redemption, query by query\<close>

text \<open>
  \<open>verifyBackupCode\<close> awaits four queries in turn (the pool runs each on its own, outside
  any transaction), and another request may run between any two of them. A request is
  at one of these points: before its SELECT of the unused codes; holding the stored row
  its code matched, before the SELECT of \<open>useBackupCode\<close>; holding the row that SELECT
  found (or none), before the UPDATE; before the INSERT of the attempt row; done, with its
  verdict. The comparison loop between the first SELECT and the next query touches no
  store. The return value of \<open>useBackupCode\<close> is not read by the caller.
\<close>

datatype phase =
    Start
  | Matched backup_code_row
  | Selected "backup_code_row option"
  | Logging bool
  | Done bool

record redemption =
  rd_userId :: string
  rd_code :: string
  rd_req :: "request option"
  rd_phase :: phase

definition step :: "env \<Rightarrow> store \<Rightarrow> redemption \<Rightarrow> store \<times> redemption" where
  "step e s rd =
     (case rd_phase rd of
        Start \<Rightarrow>
          (case find (\<lambda>c. bcrypt_compare e (rd_code rd) (bc_code_hash c))
                  (unused_codes s (rd_userId rd)) of
             None \<Rightarrow> (s, rd\<lparr>rd_phase := Logging False\<rparr>)
           | Some storedCode \<Rightarrow> (s, rd\<lparr>rd_phase := Matched storedCode\<rparr>))
      | Matched storedCode \<Rightarrow>
          (case filter (\<lambda>c. bc_code_hash c = bc_code_hash storedCode)
                  (unused_codes s (rd_userId rd)) of
             [] \<Rightarrow> (s, rd\<lparr>rd_phase := Logging True\<rparr>)
           | c # _ \<Rightarrow> (s, rd\<lparr>rd_phase := Selected (Some c)\<rparr>))
      | Selected None \<Rightarrow> (s, rd\<lparr>rd_phase := Logging True\<rparr>)
      | Selected (Some c) \<Rightarrow> (mark_used s (bc_id c), rd\<lparr>rd_phase := Logging True\<rparr>)
      | Logging v \<Rightarrow>
          (s\<lparr>user_2fa_attempt := user_2fa_attempt s @
               [\<lparr>att_user_id = rd_userId rd, att_method = ''backup_code'', att_success = v,
                 att_ip_address = getClientIp (rd_req rd), att_created_at = clock s\<rparr>]\<rparr>,
           rd\<lparr>rd_phase := Done v\<rparr>)
      | Done v \<Rightarrow> (s, rd))"

text \<open>
  Two requests under a schedule: \<open>True\<close> lets the first request take its next step,
  \<open>False\<close> the second.
\<close>

fun run :: "env \<Rightarrow> bool list \<Rightarrow> store \<times> redemption \<times> redemption \<Rightarrow> store \<times> redemption \<times> redemption" where
  "run e [] cfg = cfg"
| "run e (first # sched) (s, a, b) =
     (if first then (case step e s a of (s1, a1) \<Rightarrow> run e sched (s1, a1, b))
      else (case step e s b of (s1, b1) \<Rightarrow> run e sched (s1, a, b1)))"

text \<open>One request running alone for \<open>n\<close> steps.\<close>

fun steps :: "env \<Rightarrow> nat \<Rightarrow> store \<times> redemption \<Rightarrow> store \<times> redemption" where
  "steps e 0 cfg = cfg"
| "steps e (Suc n) (s, rd) = steps e n (step e s rd)"

definition redeem :: "string \<Rightarrow> string \<Rightarrow> redemption" where
  "redeem userId code = \<lparr>rd_userId = userId, rd_code = code, rd_req = None, rd_phase = Start\<rparr>"

section \<open>What a verifier call adds to the ledger\<close>

definition attempt_of :: "store \<Rightarrow> string \<Rightarrow> string \<Rightarrow> bool \<Rightarrow> request option \<Rightarrow> attempt_row" where
  "attempt_of s userId method success req =
     \<lparr>att_user_id = userId, att_method = method, att_success = success,
      att_ip_address = getClientIp req, att_created_at = clock s\<rparr>"

text \<open>The call appended exactly one row, for this method and with the verdict it returned.\<close>

definition exactly_one_row ::
  "store \<Rightarrow> string \<Rightarrow> string \<Rightarrow> request option \<Rightarrow> bool \<times> store \<Rightarrow> bool" where
  "exactly_one_row s userId method req res =
     (user_2fa_attempt (snd res) =
        user_2fa_attempt s @ [attempt_of s userId method (fst res) req])"

text \<open>The call appended no row and returned false, or appended one row for this method.\<close>

definition at_most_one_row ::
  "store \<Rightarrow> string \<Rightarrow> string \<Rightarrow> request option \<Rightarrow> bool \<times> store \<Rightarrow> bool" where
  "at_most_one_row s userId method req res =
     ((user_2fa_attempt (snd res) = user_2fa_attempt s \<and> fst res = False)
      \<or> user_2fa_attempt (snd res) = user_2fa_attempt s @ [attempt_of s userId method False req]
      \<or> user_2fa_attempt (snd res) = user_2fa_attempt s @ [attempt_of s userId method True req])"

section \<open>The e-mail code check as the specification words it\<close>

text \<open>
  The specification's wording of the lookup, for comparison with \<open>verifyToken\<close>: take the
  most recent unexpired, unused row of the e-mail address and compare the supplied code
  with it.
\<close>

definition usable_otps :: "env \<Rightarrow> store \<Rightarrow> string \<Rightarrow> otp_row list" where
  "usable_otps e s email =
     filter (\<lambda>r. sql_eq e (otp_email r) email \<and> otp_expires_at r > clock s \<and> \<not> otp_is_used r)
            (otp_tbl s)"

fun most_recent :: "otp_row list \<Rightarrow> otp_row option" where
  "most_recent [] = None"
| "most_recent (r # rs) =
     (case most_recent rs of
        None \<Rightarrow> Some r
      | Some r' \<Rightarrow> if otp_created_at r' \<ge> otp_created_at r then Some r' else Some r)"

definition spec_most_recent_otp_matches :: "env \<Rightarrow> store \<Rightarrow> string \<Rightarrow> string \<Rightarrow> bool" where
  "spec_most_recent_otp_matches e s email otp =
     (case most_recent (usable_otps e s email) of
        None \<Rightarrow> False
      | Some r \<Rightarrow> otp_otp r = otp)"

section \<open>Time passing\<close>

definition after_seconds :: "int \<Rightarrow> store \<Rightarrow> store" where
  "after_seconds d s = s\<lparr>clock := clock s + d\<rparr>"

section \<open>Example data\<close>

text \<open>
  The example environment is fault-free, with a toy hash (the hash of \<open>p\<close> is \<open>#p\<close>)
  and a toy TOTP check (the code is the secret). Its strings are ASCII, where the
  built-ins and the collation act as follows: \<open>toLowerCase\<close> maps \<open>A\<close> to \<open>Z\<close> onto
  \<open>a\<close> to \<open>z\<close>, \<open>trim\<close> strips tab, line feed, vertical tab, form feed, carriage
  return and space at both ends, and the collation key forgets letter case and trailing
  spaces.
\<close>

definition ascii_lower_char :: "char \<Rightarrow> char" where
  "ascii_lower_char c =
     (case map_of (zip ''ABCDEFGHIJKLMNOPQRSTUVWXYZ'' ''abcdefghijklmnopqrstuvwxyz'') c of
        None \<Rightarrow> c
      | Some d \<Rightarrow> d)"

definition ascii_lower :: "string \<Rightarrow> string" where
  "ascii_lower s = map ascii_lower_char s"

definition ascii_space :: "char \<Rightarrow> bool" where
  "ascii_space c = (c = CHR '' '' \<or> c = CHR 0x09 \<or> c = CHR 0x0A \<or> c = CHR 0x0B
                 \<or> c = CHR 0x0C \<or> c = CHR 0x0D)"

definition ascii_trim :: "string \<Rightarrow> string" where
  "ascii_trim s = rev (dropWhile ascii_space (rev (dropWhile ascii_space s)))"

definition ascii_key :: "string \<Rightarrow> string" where
  "ascii_key s = ascii_lower (rev (dropWhile (\<lambda>c. c = CHR '' '') (rev s)))"

definition no_faults :: env where
  "no_faults = \<lparr>throws = (\<lambda>_. False), bcrypt_compare = (\<lambda>p h. h = CHR ''#'' # p),
      bcrypt_hash = (\<lambda>p. CHR ''#'' # p),
      totp_verify = (\<lambda>secret tok. tok = secret), randomInt = ''123456'', uuidv4 = ''sess-9'',
      js_toLowerCase = ascii_lower, js_trim = ascii_trim, collation_key = ascii_key\<rparr>"



definition code1 :: backup_code_row where
  "code1 = \<lparr>bc_id = 1, bc_user_id = ''u1'', bc_code_hash = ''#ABCD1234'', bc_is_used = False,
      bc_used_at = None\<rparr>"



text \<open>
  User \<open>u1\<close>: a super admin of business \<open>b1\<close> with every factor set up, two role grants,
  two pending one-time codes and one blocked device session. User \<open>u2\<close> is soft-deleted.
\<close>

definition user1 :: user_row where
  "user1 = \<lparr>u_id = ''u1'', u_email = ''a@x.io'', u_password = ''#hunter2'',
      u_role = ''super_admin'', u_account_name = ''business'', u_business_id = Some ''b1'',
      u_is_active = True, u_is_deleted = False, u_last_login = None\<rparr>"

definition user2 :: user_row where
  "user2 = \<lparr>u_id = ''u2'', u_email = ''d@x.io'', u_password = ''#old'',
      u_role = ''standard_user'', u_account_name = ''individual'', u_business_id = None,
      u_is_active = True, u_is_deleted = True, u_last_login = None\<rparr>"

definition question :: "nat \<Rightarrow> string \<Rightarrow> security_question_row" where
  "question i h = \<lparr>sq_id = i, sq_user_id = ''u1'', sq_question = ''?'', sq_answer_hash = h\<rparr>"

definition pending_otp :: "string \<Rightarrow> int \<Rightarrow> otp_row" where
  "pending_otp c t = \<lparr>otp_email = ''a@x.io'', otp_otp = c, otp_created_at = t,
      otp_expires_at = t + 600, otp_is_used = False\<rparr>"

definition laptop :: device_info where
  "laptop = \<lparr>ipAddress = ''10.0.0.1'', browser = ''Firefox'', os = ''Linux''\<rparr>"

definition phone :: device_info where
  "phone = \<lparr>ipAddress = ''10.0.0.2'', browser = ''Safari'', os = ''iOS''\<rparr>"

definition session_on :: "string \<Rightarrow> device_info \<Rightarrow> bool \<Rightarrow> device_session_row" where
  "session_on i d b = \<lparr>ds_id = i, ds_user_id = ''u1'', ds_browser = browser d, ds_os = os d,
      ds_ip_address = ipAddress d, ds_is_blocked = b, ds_last_active = 9000\<rparr>"

definition from_device :: "device_info \<Rightarrow> request" where
  "from_device d = \<lparr>client_ip = Some (ipAddress d), device = d\<rparr>"

definition demo_store :: store where
  "demo_store = \<lparr>user_tbl = [user1, user2],
      otp_tbl = [pending_otp ''111111'' 9900, pending_otp ''222222'' 9950],
      user_authenticator = [\<lparr>au_user_id = ''u1'', au_secret = ''JBSWY3DP'', au_is_verified = True,
                              au_created_at = 100\<rparr>],
      user_security_question = [question 1 ''#rex'', question 2 ''#oslo'', question 3 ''#pizza''],
      user_2fa_backup_code = [code1],
      user_2fa_attempt = [],
      user_2fa_settings = [\<lparr>st_user_id = ''u1'', authenticator_enabled = True,
                             passkey_enabled = False, one_time_code_enabled = True,
                             security_question_enabled = True, is_2fa_enabled = True\<rparr>],
      device_session = [session_on ''sess-1'' laptop True],
      user_roles = [\<lparr>rg_user_id = ''u1'', rg_role_id = 4, rg_role_name = ''super_admin'',
                      rg_is_active = True\<rparr>,
                    \<lparr>rg_user_id = ''u1'', rg_role_id = 3, rg_role_name = ''admin'',
                      rg_is_active = True\<rparr>],
      business = [\<lparr>b_id = ''b1'', b_is_active = True\<rparr>],
      clock = 10000\<rparr>"

text \<open>
  The example store without an authenticator secret, with an unverified one, without
  security questions, and without backup codes.
\<close>

definition no_secret_store :: store where
  "no_secret_store = demo_store\<lparr>user_authenticator := []\<rparr>"

definition unverified_store :: store where
  "unverified_store = demo_store\<lparr>user_authenticator :=
      [\<lparr>au_user_id = ''u1'', au_secret = ''JBSWY3DP'', au_is_verified = False,
        au_created_at = 100\<rparr>]\<rparr>"

definition no_questions_store :: store where
  "no_questions_store = demo_store\<lparr>user_security_question := []\<rparr>"

definition no_codes_store :: store where
  "no_codes_store = demo_store\<lparr>user_2fa_backup_code := []\<rparr>"

text \<open>Environments in which exactly one operation throws.\<close>

definition token_lookup_down :: env where
  "token_lookup_down = no_faults\<lparr>throws := (\<lambda>x. x = VerifyToken)\<rparr>"

definition ledger_down :: env where
  "ledger_down = no_faults\<lparr>throws := (\<lambda>x. x = Log2FAAttempt)\<rparr>"

definition update_down :: env where
  "update_down = no_faults\<lparr>throws := (\<lambda>x. x = UpdateOtpStatus)\<rparr>"

definition lookup_down :: env where
  "lookup_down = no_faults\<lparr>throws := (\<lambda>x. x = GetUserSessions)\<rparr>"

text \<open>A second, unblocked session of \<open>u1\<close> on the phone.\<close>

definition two_device_store :: store where
  "two_device_store = demo_store\<lparr>device_session :=
      [session_on ''sess-1'' laptop True, session_on ''sess-2'' phone False]\<rparr>"

text \<open>The second-factor-pending token that \<open>login\<close> mints for \<open>u1\<close> at time 10000.\<close>

definition pending_token :: token where
  "pending_token = Signed \<lparr>p_id = ''u1'', p_role = ''super_admin'', p_temp = False,
      p_temp2FA = True\<rparr> 10600"

section \<open>Lockout (verify2FA)\<close>






section \<open>One ledger row per verifier call\<close>

lemma log_ok:
  "\<not> throws e Log2FAAttempt \<Longrightarrow>
   log2FAAttempt e s u m v ip = Inr (s\<lparr>user_2fa_attempt := user_2fa_attempt s @
      [\<lparr>att_user_id = u, att_method = m, att_success = v, att_ip_address = ip, att_created_at = clock s\<rparr>]\<rparr>)"
  by (simp add: log2FAAttempt_def)

lemma mark_used_keeps [simp]:
  "user_2fa_attempt (mark_used s i) = user_2fa_attempt s" "clock (mark_used s i) = clock s"
  by (simp_all add: mark_used_def)

lemma scan_codes_one_row:
  assumes "\<And>x. \<not> throws e x"
  shows "user_2fa_attempt (snd (scan_codes e s u c req cs)) =
         user_2fa_attempt s @ [attempt_of s u ''backup_code'' (fst (scan_codes e s u c req cs)) req]"
proof (induction cs)
  case Nil
  show ?case by (simp add: log_ok assms attempt_of_def)
next
  case (Cons x xs)
  show ?case
    using Cons.IH
    by (auto simp: log_ok assms attempt_of_def useBackupCode_def split: list.splits)
qed

lemma authenticator_one_row:
  assumes "\<And>x. \<not> throws e x"
    and "getAuthenticatorSecret e s u = Inr (Some a)" and "au_is_verified a"
  shows "user_2fa_attempt (snd (verifyAuthenticatorCode e s u t req)) =
         user_2fa_attempt s @ [attempt_of s u ''authenticator'' (fst (verifyAuthenticatorCode e s u t req)) req]"
  using assms by (simp add: verifyAuthenticatorCode_def log_ok attempt_of_def Let_def)

lemma one_time_code_one_row:
  assumes "\<And>x. \<not> throws e x"
  shows "user_2fa_attempt (snd (verifyOneTimeCode e s u em otp req)) =
         user_2fa_attempt s @ [attempt_of s u ''one_time_code'' (fst (verifyOneTimeCode e s u em otp req)) req]"
  using assms by (simp add: verifyOneTimeCode_def verifyToken_def updateOtpStatus_def log_ok attempt_of_def)

lemma security_question_one_row:
  assumes "\<And>x. \<not> throws e x"
    and "getSecurityQuestions e s u = Inr qs" and "qs \<noteq> []"
  shows "user_2fa_attempt (snd (verifySecurityQuestionsCode e s u ans req)) =
         user_2fa_attempt s @ [attempt_of s u ''security_question'' (fst (verifySecurityQuestionsCode e s u ans req)) req]"
proof -
  have ca: "\<And>as. \<exists>v. check_answers e qs as = Inr v"
  proof -
    fix as show "\<exists>v. check_answers e qs as = Inr v"
      by (induction as) (auto simp: assms(1) split: option.splits)
  qed
  show ?thesis
  proof (cases ans)
    case None
    then show ?thesis using assms
      by (simp add: verifySecurityQuestionsCode_def log_no_answers_def log_ok attempt_of_def)
  next
    case (Some as)
    obtain v where v: "check_answers e qs as = Inr v" using ca by blast
    show ?thesis using assms Some v
      by (simp add: verifySecurityQuestionsCode_def log_no_answers_def log_ok attempt_of_def)
  qed
qed


lemma log_cases:
  "log2FAAttempt e s u m v ip = Inl (Thrown Log2FAAttempt) \<or>
   log2FAAttempt e s u m v ip = Inr (s\<lparr>user_2fa_attempt := user_2fa_attempt s @
      [\<lparr>att_user_id = u, att_method = m, att_success = v, att_ip_address = ip, att_created_at = clock s\<rparr>]\<rparr>)"
  by (simp add: log2FAAttempt_def)

lemma authenticator_at_most:
  "at_most_one_row s u ''authenticator'' req (verifyAuthenticatorCode e s u t req)"
  using log_cases [of e s u "''authenticator''" _ "getClientIp req"]
  by (auto simp: at_most_one_row_def verifyAuthenticatorCode_def attempt_of_def Let_def log2FAAttempt_def
      split: sum.splits option.splits)

lemma one_time_code_at_most:
  "at_most_one_row s u ''one_time_code'' req (verifyOneTimeCode e s u em otp req)"
  by (auto simp: at_most_one_row_def verifyOneTimeCode_def attempt_of_def log2FAAttempt_def
      updateOtpStatus_def split: sum.splits option.splits)

lemma security_question_at_most:
  "at_most_one_row s u ''security_question'' req (verifySecurityQuestionsCode e s u ans req)"
  by (auto simp: at_most_one_row_def verifySecurityQuestionsCode_def log_no_answers_def
      attempt_of_def log2FAAttempt_def split: sum.splits option.splits)

lemma scan_codes_at_most:
  "at_most_one_row s u ''backup_code'' req (scan_codes e s u c req cs)"
proof (induction cs)
  case Nil
  show ?case
    by (auto simp: at_most_one_row_def attempt_of_def log2FAAttempt_def split: sum.splits)
next
  case (Cons x xs)
  show ?case using Cons.IH
    by (auto simp: at_most_one_row_def attempt_of_def log2FAAttempt_def useBackupCode_def
        split: sum.splits list.splits if_splits)
qed

lemma backup_code_at_most:
  "at_most_one_row s u ''backup_code'' req (verifyBackupCode e s u c req)"
  using scan_codes_at_most [of s u req e c]
  by (simp add: verifyBackupCode_def at_most_one_row_def)


text \<open>
  Where the verifiers do write: in a call during which no collaborator throws, the
  e-mail code verifier and the backup-code verifier append exactly one attempt row,
  carrying the method and the verdict returned; so does the authenticator verifier when
  the user has a verified secret, and the security-question verifier when the user has
  at least one stored question. No call appends more than one row.
\<close>

lemma rows_of_logged_calls:
  "((\<forall>x. \<not> throws e x) \<longrightarrow>
      (\<forall>a. getAuthenticatorSecret e s userId = Inr (Some a) \<and> au_is_verified a \<longrightarrow>
           exactly_one_row s userId ''authenticator'' req
             (verifyAuthenticatorCode e s userId token req))
    \<and> exactly_one_row s userId ''one_time_code'' req (verifyOneTimeCode e s userId email otp req)
    \<and> (\<forall>qs. getSecurityQuestions e s userId = Inr qs \<and> qs \<noteq> [] \<longrightarrow>
           exactly_one_row s userId ''security_question'' req
             (verifySecurityQuestionsCode e s userId answers req))
    \<and> exactly_one_row s userId ''backup_code'' req (verifyBackupCode e s userId code req))
   \<and> at_most_one_row s userId ''authenticator'' req (verifyAuthenticatorCode e s userId token req)
   \<and> at_most_one_row s userId ''one_time_code'' req (verifyOneTimeCode e s userId email otp req)
   \<and> at_most_one_row s userId ''security_question'' req
        (verifySecurityQuestionsCode e s userId answers req)
   \<and> at_most_one_row s userId ''backup_code'' req (verifyBackupCode e s userId code req)"
proof -
  have "exactly_one_row s userId ''backup_code'' req (verifyBackupCode e s userId code req)"
    if "\<forall>x. \<not> throws e x"
    using that scan_codes_one_row [of e s userId code req "unused_codes s userId"]
    by (simp add: exactly_one_row_def verifyBackupCode_def)
  then show ?thesis
    using authenticator_one_row [of e s userId _ token req]
      one_time_code_one_row [of e s userId email otp req]
      security_question_one_row [of e s userId _ answers req]
      authenticator_at_most one_time_code_at_most security_question_at_most backup_code_at_most
    by (simp add: exactly_one_row_def)
qed

lemma demo_secret:
  "getAuthenticatorSecret no_faults demo_store ''u1'' =
     Inr (Some \<lparr>au_user_id = ''u1'', au_secret = ''JBSWY3DP'', au_is_verified = True, au_created_at = 100\<rparr>)"
  by (simp add: getAuthenticatorSecret_def no_faults_def demo_store_def)

lemma demo_questions:
  "getSecurityQuestions no_faults demo_store ''u1'' =
     Inr [question 1 ''#rex'', question 2 ''#oslo'', question 3 ''#pizza'']"
  by (simp add: getSecurityQuestions_def no_faults_def demo_store_def question_def)

text \<open>
  The sibling paths that do log a failure: the backup-code verifier for a user without
  codes, and the security-question verifier for an empty list of answers.
\<close>

lemma sibling_paths_log:
  "user_2fa_attempt (snd (verifyBackupCode no_faults no_codes_store ''u1'' ''ABCD1234'' None)) =
     [attempt_of demo_store ''u1'' ''backup_code'' False None]
   \<and> user_2fa_attempt (snd (verifySecurityQuestionsCode no_faults demo_store ''u1'' (Some []) None)) =
     [attempt_of demo_store ''u1'' ''security_question'' False None]"
  by (simp add: verifyBackupCode_def unused_codes_def no_codes_store_def log2FAAttempt_def
      verifySecurityQuestionsCode_def getSecurityQuestions_def log_no_answers_def
      attempt_of_def getClientIp_def no_faults_def demo_store_def question_def)

text \<open>
  C3 (the code departs from the claim). Four verifier calls that return false and leave
  the store exactly as it was, so that no attempt row records them: the authenticator
  verifier for a user without a secret and for a user whose secret is not verified, the
  security-question verifier for a user without stored questions, and the e-mail code
  verifier when its OTP lookup throws while the ledger insert would not.
\<close>

theorem verifier_skips_ledger_row:
  "verifyAuthenticatorCode no_faults no_secret_store ''u1'' ''JBSWY3DP'' None =
     (False, no_secret_store)
   \<and> verifyAuthenticatorCode no_faults unverified_store ''u1'' ''JBSWY3DP'' None =
     (False, unverified_store)
   \<and> verifySecurityQuestionsCode no_faults no_questions_store ''u1''
        (Some [\<lparr>ans_id = 2, ans_answer = ''oslo''\<rparr>]) None =
     (False, no_questions_store)
   \<and> verifyOneTimeCode token_lookup_down demo_store ''u1'' ''a@x.io'' ''222222'' None =
     (False, demo_store)
   \<and> throws token_lookup_down Log2FAAttempt = False"
  by (simp add: verifyAuthenticatorCode_def getAuthenticatorSecret_def no_secret_store_def
      unverified_store_def verifySecurityQuestionsCode_def getSecurityQuestions_def
      no_questions_store_def verifyOneTimeCode_def verifyToken_def token_lookup_down_def
      no_faults_def demo_store_def)

section \<open>Security questions: any one correct answer\<close>

lemma no_faults_throws: "\<forall>x. \<not> throws no_faults x"
  by (simp add: no_faults_def)

lemma demo_questions_nonempty:
  "[question 1 ''#rex'', question 2 ''#oslo'', question 3 ''#pizza''] \<noteq> []"
  by simp

lemma check_answers_result:
  "check_answers e qs as =
     (if throws e BcryptCompare then
        (if \<exists>a \<in> set as. find (\<lambda>q. sq_id q = ans_id a) qs \<noteq> None
         then Inl (Thrown BcryptCompare) else Inr False)
      else Inr (\<exists>a \<in> set as. \<exists>q. find (\<lambda>q. sq_id q = ans_id a) qs = Some q
            \<and> bcrypt_compare e (js_trim e (js_toLowerCase e (ans_answer a))) (sq_answer_hash q)))"
  by (induction as) (auto split: option.splits)

text \<open>
  C6 (as amended). For a user with at least one stored question and a non-empty list of
  answers, the security-question verifier succeeds exactly when none of its three
  operations (the lookup of the questions, the hash comparison, the insert of the attempt
  row) throws and some supplied answer, after \<open>toLowerCase\<close> and then \<open>trim\<close>, matches
  the stored hash of the stored question with its id. An id with no stored question
  contributes nothing (it is skipped), and wrong answers beside a correct one do not
  matter.
\<close>

theorem security_question_any_one_correct:
  assumes "questions =
      sort_key sq_id (filter (\<lambda>q. sq_user_id q = userId) (user_security_question s))"
    and "questions \<noteq> []" and "answers \<noteq> []"
  shows "fst (verifySecurityQuestionsCode e s userId (Some answers) req) =
     (\<not> throws e GetSecurityQuestions \<and> \<not> throws e BcryptCompare \<and> \<not> throws e Log2FAAttempt
      \<and> (\<exists>a \<in> set answers. \<exists>q. find (\<lambda>q. sq_id q = ans_id a) questions = Some q
            \<and> bcrypt_compare e (js_trim e (js_toLowerCase e (ans_answer a))) (sq_answer_hash q)))"
proof (cases "throws e GetSecurityQuestions")
  case True
  then show ?thesis
    by (simp add: verifySecurityQuestionsCode_def getSecurityQuestions_def)
next
  case False
  then have g: "getSecurityQuestions e s userId = Inr questions"
    using assms(1) by (simp add: getSecurityQuestions_def)
  show ?thesis
    using False g assms(2,3)
    by (auto simp: verifySecurityQuestionsCode_def check_answers_result log2FAAttempt_def
        split: sum.splits)
qed

lemma demo_questions_sorted:
  "[question 1 ''#rex'', question 2 ''#oslo'', question 3 ''#pizza''] =
     sort_key sq_id (filter (\<lambda>q. sq_user_id q = ''u1'') (user_security_question demo_store))"
  by (simp add: demo_store_def question_def)

text \<open>
  An unknown id, a wrong answer and a correct one (after normalisation) succeed; the
  unknown id and the wrong answer alone fail; the correct answer fails when the insert
  of the attempt row throws.
\<close>

theorem security_question_any_one_correct_witness:
  "fst (verifySecurityQuestionsCode no_faults demo_store ''u1''
          (Some [\<lparr>ans_id = 9, ans_answer = ''rex''\<rparr>, \<lparr>ans_id = 1, ans_answer = ''cat''\<rparr>,
                 \<lparr>ans_id = 2, ans_answer = ''  OSLO ''\<rparr>]) None) = True
   \<and> fst (verifySecurityQuestionsCode no_faults demo_store ''u1''
          (Some [\<lparr>ans_id = 9, ans_answer = ''rex''\<rparr>, \<lparr>ans_id = 1, ans_answer = ''cat''\<rparr>]) None)
       = False
   \<and> fst (verifySecurityQuestionsCode ledger_down demo_store ''u1''
          (Some [\<lparr>ans_id = 2, ans_answer = ''  OSLO ''\<rparr>]) None) = False"
proof -
  have n1: "[\<lparr>ans_id = 9, ans_answer = ''rex''\<rparr>, \<lparr>ans_id = 1, ans_answer = ''cat''\<rparr>,
             \<lparr>ans_id = 2, ans_answer = ''  OSLO ''\<rparr>] \<noteq> []" by simp
  have n2: "[\<lparr>ans_id = 9, ans_answer = ''rex''\<rparr>, \<lparr>ans_id = 1, ans_answer = ''cat''\<rparr>] \<noteq> []"
    by simp
  have n3: "[\<lparr>ans_id = 2, ans_answer = ''  OSLO ''\<rparr>] \<noteq> []" by simp
  have t: "throws ledger_down Log2FAAttempt" by (simp add: ledger_down_def)
  have a: "fst (verifySecurityQuestionsCode no_faults demo_store ''u1''
          (Some [\<lparr>ans_id = 9, ans_answer = ''rex''\<rparr>, \<lparr>ans_id = 1, ans_answer = ''cat''\<rparr>,
                 \<lparr>ans_id = 2, ans_answer = ''  OSLO ''\<rparr>]) None) = True"
    using security_question_any_one_correct
            [OF demo_questions_sorted demo_questions_nonempty n1, of no_faults None]
    by (simp add: question_def no_faults_def ascii_trim_def ascii_lower_def
          ascii_lower_char_def ascii_space_def)
  have b: "fst (verifySecurityQuestionsCode no_faults demo_store ''u1''
          (Some [\<lparr>ans_id = 9, ans_answer = ''rex''\<rparr>, \<lparr>ans_id = 1, ans_answer = ''cat''\<rparr>]) None)
       = False"
    using security_question_any_one_correct
            [OF demo_questions_sorted demo_questions_nonempty n2, of no_faults None]
    by (simp add: question_def no_faults_def ascii_trim_def ascii_lower_def
          ascii_lower_char_def ascii_space_def)
  have c: "fst (verifySecurityQuestionsCode ledger_down demo_store ''u1''
          (Some [\<lparr>ans_id = 2, ans_answer = ''  OSLO ''\<rparr>]) None) = False"
    using security_question_any_one_correct
            [OF demo_questions_sorted demo_questions_nonempty n3, of ledger_down None] t
    by simp
  show ?thesis using a b c by simp
qed

text \<open>
  The claim as first stated (success whenever one answer matches) fails when the insert
  of the attempt row throws: the answer to question 2 matches its stored hash, and the
  verifier returns false.
\<close>

theorem security_question_counterexample:
  "getSecurityQuestions ledger_down demo_store ''u1'' =
     Inr [question 1 ''#rex'', question 2 ''#oslo'', question 3 ''#pizza'']
   \<and> find (\<lambda>q. sq_id q = 2) [question 1 ''#rex'', question 2 ''#oslo'', question 3 ''#pizza''] =
     Some (question 2 ''#oslo'')
   \<and> bcrypt_compare ledger_down (js_trim ledger_down (js_toLowerCase ledger_down ''  OSLO ''))
        (sq_answer_hash (question 2 ''#oslo''))
   \<and> fst (verifySecurityQuestionsCode ledger_down demo_store ''u1''
          (Some [\<lparr>ans_id = 2, ans_answer = ''  OSLO ''\<rparr>]) None) = False"
  by (simp add: verifySecurityQuestionsCode_def getSecurityQuestions_def log2FAAttempt_def
      ledger_down_def no_faults_def demo_store_def question_def ascii_trim_def ascii_lower_def
      ascii_lower_char_def ascii_space_def)

section \<open>The e-mail code verifier\<close>

text \<open>
  C7 (as amended). The e-mail code verifier accepts exactly when none of its three
  operations (the OTP lookup, the insert of the attempt row, the update of the used
  flags) throws and some unexpired, unused row is equal, for the database, to the
  supplied code and to the e-mail address: any such row, not only the most recent one,
  and equal under the collation of the columns, not letter for letter. When it accepts
  it marks every row of that address used and leaves the rows of other addresses as they
  are; when it refuses it leaves the table as it is.
\<close>

theorem one_time_code_any_pending_match:
  "fst (verifyOneTimeCode e s userId email otp req) =
     (\<not> throws e VerifyToken \<and> \<not> throws e Log2FAAttempt \<and> \<not> throws e UpdateOtpStatus
      \<and> (\<exists>r \<in> set (otp_tbl s). sql_eq e (otp_otp r) otp \<and> sql_eq e (otp_email r) email
             \<and> otp_expires_at r > clock s \<and> \<not> otp_is_used r))
   \<and> otp_tbl (snd (verifyOneTimeCode e s userId email otp req)) =
       (if fst (verifyOneTimeCode e s userId email otp req)
        then map (\<lambda>r. if sql_eq e (otp_email r) email then r\<lparr>otp_is_used := True\<rparr> else r)
               (otp_tbl s)
        else otp_tbl s)"
proof -
  have m: "(length (otp_matches e s email otp) > 0) =
           (\<exists>r \<in> set (otp_tbl s). sql_eq e (otp_otp r) otp \<and> sql_eq e (otp_email r) email
                \<and> otp_expires_at r > clock s \<and> \<not> otp_is_used r)"
    by (auto simp: otp_matches_def filter_empty_conv)
  show ?thesis
    using m
    by (simp add: verifyOneTimeCode_def verifyToken_def updateOtpStatus_def log2FAAttempt_def)
qed

text \<open>
  Two pending codes for one address: the older one is accepted and both rows are marked
  used; so is the newer one followed by a blank; a code that is in no row is refused and
  nothing changes; and the newer code is refused, with the table unchanged, when the
  update of the used flags throws.
\<close>

theorem one_time_code_any_pending_match_witness:
  "fst (verifyOneTimeCode no_faults demo_store ''u1'' ''a@x.io'' ''111111'' None) = True
   \<and> otp_tbl (snd (verifyOneTimeCode no_faults demo_store ''u1'' ''a@x.io'' ''111111'' None)) =
       [(pending_otp ''111111'' 9900)\<lparr>otp_is_used := True\<rparr>,
        (pending_otp ''222222'' 9950)\<lparr>otp_is_used := True\<rparr>]
   \<and> fst (verifyOneTimeCode no_faults demo_store ''u1'' ''a@x.io'' ''222222 '' None) = True
   \<and> fst (verifyOneTimeCode no_faults demo_store ''u1'' ''a@x.io'' ''999999'' None) = False
   \<and> otp_tbl (snd (verifyOneTimeCode no_faults demo_store ''u1'' ''a@x.io'' ''999999'' None)) =
       otp_tbl demo_store
   \<and> fst (verifyOneTimeCode update_down demo_store ''u1'' ''a@x.io'' ''222222'' None) = False
   \<and> otp_tbl (snd (verifyOneTimeCode update_down demo_store ''u1'' ''a@x.io'' ''222222'' None)) =
       otp_tbl demo_store"
  using one_time_code_any_pending_match [of no_faults demo_store "''u1''" "''a@x.io''" "''111111''" None]
        one_time_code_any_pending_match [of no_faults demo_store "''u1''" "''a@x.io''" "''222222 ''" None]
        one_time_code_any_pending_match [of no_faults demo_store "''u1''" "''a@x.io''" "''999999''" None]
        one_time_code_any_pending_match [of update_down demo_store "''u1''" "''a@x.io''" "''222222''" None]
  by (simp add: demo_store_def pending_otp_def no_faults_def update_down_def sql_eq_def
        ascii_key_def ascii_lower_def ascii_lower_char_def)

text \<open>
  The claim as first stated fails on the same store: the verifier accepts the older code
  although the most recent pending row holds another one, and the row that was not
  matched is marked used as well.
\<close>

theorem one_time_code_counterexample:
  "fst (verifyOneTimeCode no_faults demo_store ''u1'' ''a@x.io'' ''111111'' None) = True
   \<and> spec_most_recent_otp_matches no_faults demo_store ''a@x.io'' ''111111'' = False
   \<and> most_recent (usable_otps no_faults demo_store ''a@x.io'') = Some (pending_otp ''222222'' 9950)
   \<and> otp_tbl demo_store = [pending_otp ''111111'' 9900, pending_otp ''222222'' 9950]
   \<and> otp_tbl (snd (verifyOneTimeCode no_faults demo_store ''u1'' ''a@x.io'' ''111111'' None)) =
       [(pending_otp ''111111'' 9900)\<lparr>otp_is_used := True\<rparr>,
        (pending_otp ''222222'' 9950)\<lparr>otp_is_used := True\<rparr>]"
  by (simp add: verifyOneTimeCode_def verifyToken_def otp_matches_def updateOtpStatus_def
        log2FAAttempt_def no_faults_def demo_store_def pending_otp_def
        spec_most_recent_otp_matches_def usable_otps_def sql_eq_def
        ascii_key_def ascii_lower_def ascii_lower_char_def)

section \<open>One OTP table for password reset and second factor\<close>

lemma pending_row_accepted:
  assumes "\<forall>x. \<not> throws e x" and "r \<in> set (otp_tbl s)"
    and "otp_expires_at r > clock s" and "\<not> otp_is_used r"
  shows "fst (verifyOneTimeCode e s userId (otp_email r) (otp_otp r) req)"
proof -
  have "r \<in> set (otp_matches e s (otp_email r) (otp_otp r))"
    using assms by (simp add: otp_matches_def sql_eq_def)
  then have "length (otp_matches e s (otp_email r) (otp_otp r)) > 0"
    by (cases "otp_matches e s (otp_email r) (otp_otp r)") auto
  then show ?thesis
    using assms(1)
    by (simp add: verifyOneTimeCode_def verifyToken_def updateOtpStatus_def log2FAAttempt_def)
qed

lemma inserted_row_pending:
  assumes "\<not> throws e InsertOtp" and "0 \<le> d" and "d < 600"
  shows "\<exists>s1. insertOtp e s email otp = Inr s1
           \<and> user_tbl s1 = user_tbl s
           \<and> length (otp_matches e (after_seconds d s1) email otp) > 0"
  using assms
  by (simp add: insertOtp_def otp_matches_def after_seconds_def sql_eq_def)

lemma getByEmail_email:
  "getByEmail e s email = Inr (Some user) \<Longrightarrow> u_email user = email"
  by (auto simp: getByEmail_def find_Some_iff split: if_splits)

text \<open>
  C10. The OTP table carries no purpose: in calls during which nothing throws, every
  unexpired, unused row makes the e-mail code verifier accept its code for its address,
  whoever inserted it. For a live super admin found by the e-mail address, the code that
  the password-reset request stores is accepted by the second-factor verifier, and the
  code that the second-factor send stores is accepted by the password reset, at any
  moment of the ten minutes after the insertion.
\<close>

theorem otp_store_shared:
  assumes nf: "\<forall>x. \<not> throws e x"
    and user: "getByEmail e s email = Inr (Some user)"
    and live: "\<not> u_is_deleted user" and role: "u_role user = ''super_admin''"
    and d: "0 \<le> d" "d < 600"
  shows "(\<forall>r \<in> set (otp_tbl s). otp_expires_at r > clock s \<and> \<not> otp_is_used r \<longrightarrow>
            fst (verifyOneTimeCode e s userId (otp_email r) (otp_otp r) req))
       \<and> fst (verifyOneTimeCode e (after_seconds d (snd (requestPasswordResetOTP e s email)))
                 (u_id user) (u_email user) (randomInt e) req)
       \<and> fst (resetPasswordWithOTP e (after_seconds d (snd (sendOneTimeCode e s user)))
                 email (randomInt e) password) =
           Inr (Response_okMessage
             ''Password has been reset successfully. You can now login with your new password.'')"
proof -
  have em: "u_email user = email" using user by (rule getByEmail_email)
  obtain s1 where s1: "insertOtp e s email (randomInt e) = Inr s1"
    "user_tbl s1 = user_tbl s"
    "length (otp_matches e (after_seconds d s1) email (randomInt e)) > 0"
    using inserted_row_pending [of e d s email "randomInt e"] nf d by blast
  have a: "\<forall>r \<in> set (otp_tbl s). otp_expires_at r > clock s \<and> \<not> otp_is_used r \<longrightarrow>
            fst (verifyOneTimeCode e s userId (otp_email r) (otp_otp r) req)"
    using pending_row_accepted [OF nf] by blast
  have b: "fst (verifyOneTimeCode e (after_seconds d (snd (requestPasswordResetOTP e s email)))
                 (u_id user) (u_email user) (randomInt e) req)"
    using nf user live role em s1
    by (simp add: requestPasswordResetOTP_def verifyOneTimeCode_def verifyToken_def
          updateOtpStatus_def log2FAAttempt_def)
  have u: "getByEmail e (after_seconds d s1) email = Inr (Some user)"
    using user s1(2) by (simp add: getByEmail_def after_seconds_def split: if_splits)
  have c: "fst (resetPasswordWithOTP e (after_seconds d (snd (sendOneTimeCode e s user)))
                 email (randomInt e) password) =
           Inr (Response_okMessage
             ''Password has been reset successfully. You can now login with your new password.'')"
    using nf u live role em s1
    by (simp add: sendOneTimeCode_def resetPasswordWithOTP_def verifyToken_def
          updatePassword_def updateOtpStatus_def)
  show ?thesis using a b c by blast
qed

lemma demo_user1: "getByEmail no_faults demo_store ''a@x.io'' = Inr (Some user1)"
  by (simp add: getByEmail_def no_faults_def demo_store_def user1_def)

text \<open>
  User \<open>u1\<close>, 599 seconds after the code \<open>123456\<close> was stored by the one flow and
  presented to the other.
\<close>

theorem otp_store_shared_witness:
  "fst (verifyOneTimeCode no_faults demo_store ''u1'' ''a@x.io'' ''222222'' None)
   \<and> fst (verifyOneTimeCode no_faults
            (after_seconds 599 (snd (requestPasswordResetOTP no_faults demo_store ''a@x.io'')))
            ''u1'' ''a@x.io'' ''123456'' None)
   \<and> fst (resetPasswordWithOTP no_faults
            (after_seconds 599 (snd (sendOneTimeCode no_faults demo_store user1)))
            ''a@x.io'' ''123456'' ''N3w-pass!'') =
       Inr (Response_okMessage
         ''Password has been reset successfully. You can now login with your new password.'')"
proof -
  have live: "\<not> u_is_deleted user1" and role: "u_role user1 = ''super_admin''"
    by (simp_all add: user1_def)
  have d: "(0::int) \<le> 599" "(599::int) < 600" by simp_all
  have r: "pending_otp ''222222'' 9950 \<in> set (otp_tbl demo_store)"
    by (simp add: demo_store_def)
  have f: "otp_expires_at (pending_otp ''222222'' 9950) > clock demo_store
           \<and> \<not> otp_is_used (pending_otp ''222222'' 9950)"
    by (simp add: demo_store_def pending_otp_def)
  have v: "otp_email (pending_otp ''222222'' 9950) = ''a@x.io''"
     "otp_otp (pending_otp ''222222'' 9950) = ''222222''"
     "u_id user1 = ''u1''" "u_email user1 = ''a@x.io''" "randomInt no_faults = ''123456''"
    by (simp_all add: pending_otp_def user1_def no_faults_def)
  show ?thesis
    using otp_store_shared [OF no_faults_throws demo_user1 live role d, of "''u1''" None "''N3w-pass!''"]
      r f v
    by (metis)
qed

section \<open>The device check of login fails open\<close>

lemma issue_session_never:
  "fst (issue_session e s user req) \<noteq> Inl (Thrown GetUserSessions)
   \<and> fst (issue_session e s user req) \<noteq> Inr device_blocked_response"
  by (auto simp: issue_session_def Let_def updateLastLoggedIn_def device_blocked_response_def
      Response_error_def Response_ok_def split: sum.splits)

lemma role_decision_never:
  "fst (role_decision e s user req) \<noteq> Inl (Thrown GetUserSessions)
   \<and> fst (role_decision e s user req) \<noteq> Inr device_blocked_response"
  using issue_session_never [of e s user req]
  by (auto simp: role_decision_def getUserRoleNames_def device_blocked_response_def
      Response_error_def Response_ok_def split: sum.splits)

lemma factor_decision_never:
  "fst (factor_decision e s user req) \<noteq> Inl (Thrown GetUserSessions)
   \<and> fst (factor_decision e s user req) \<noteq> Inr device_blocked_response"
  using role_decision_never [of e s user req]
  by (auto simp: factor_decision_def get2FASettings_def device_blocked_response_def
      Response_error_def Response_ok_def split: sum.splits option.splits)

text \<open>
  C8. When the device-session lookup throws, \<open>isDeviceBlocked\<close> answers false, and no
  login call returns the lookup's exception or the device-blocked response: a call with
  valid credentials of a live user goes on to the factor decision as if the device were
  not blocked.
\<close>

theorem device_check_fails_open:
  assumes "throws e GetUserSessions"
  shows "isDeviceBlocked e s userId req = False
       \<and> fst (login e s email password req) \<noteq> Inl (Thrown GetUserSessions)
       \<and> fst (login e s email password req) \<noteq> Inr device_blocked_response
       \<and> (\<forall>user. getByEmail e s email = Inr (Some user) \<and> \<not> throws e BcryptCompare
             \<and> bcrypt_compare e password (u_password user) \<and> \<not> u_is_deleted user \<longrightarrow>
            login e s email password req = factor_decision e s user req)"
proof -
  have b: "isDeviceBlocked e s u req = False" for u
    using assms
    by (simp add: isDeviceBlocked_def getUserSessions_def split: option.splits sum.splits)
  have l: "fst (login e s email password req) \<noteq> Inl (Thrown GetUserSessions)
       \<and> fst (login e s email password req) \<noteq> Inr device_blocked_response"
    using factor_decision_never [of e s _ req]
    by (auto simp: login_def b getByEmail_def device_blocked_response_def Response_error_def
        split: sum.splits option.splits)
  show ?thesis using b l by (simp add: login_def)
qed

lemma demo_login_blocked:
  "fst (login no_faults demo_store ''a@x.io'' ''hunter2'' (Some (from_device laptop)))
     = Inr device_blocked_response"
  by (simp add: login_def getByEmail_def isDeviceBlocked_def extractDeviceInfo_def
      getUserSessions_def no_faults_def demo_store_def user1_def user2_def session_on_def
      from_device_def laptop_def)

lemma demo_factor_decision:
  "factor_decision lookup_down demo_store user1 (Some (from_device laptop)) =
     (Inr (Response_ok (Require2FA
        (Signed \<lparr>p_id = ''u1'', p_role = ''super_admin'', p_temp = False, p_temp2FA = True\<rparr> 10600)
        \<lparr>am_authenticator = True, am_oneTimeCode = True, am_securityQuestion = True,
          am_backupCode = True\<rparr>
        (public user1))), demo_store)"
  by (simp add: factor_decision_def get2FASettings_def lookup_down_def no_faults_def
      demo_store_def user1_def jwt_sign_def)

text \<open>
  The laptop of \<open>u1\<close> is blocked: with a working lookup the login is refused, with a
  throwing lookup it proceeds to the second factor.
\<close>

theorem device_check_fails_open_witness:
  "fst (login no_faults demo_store ''a@x.io'' ''hunter2'' (Some (from_device laptop)))
     = Inr device_blocked_response
   \<and> login lookup_down demo_store ''a@x.io'' ''hunter2'' (Some (from_device laptop)) =
     (Inr (Response_ok (Require2FA
        (Signed \<lparr>p_id = ''u1'', p_role = ''super_admin'', p_temp = False, p_temp2FA = True\<rparr> 10600)
        \<lparr>am_authenticator = True, am_oneTimeCode = True, am_securityQuestion = True,
          am_backupCode = True\<rparr>
        (public user1))), demo_store)"
proof -
  have t: "throws lookup_down GetUserSessions" by (simp add: lookup_down_def)
  have u: "getByEmail lookup_down demo_store ''a@x.io'' = Inr (Some user1)"
    by (simp add: getByEmail_def lookup_down_def no_faults_def demo_store_def user1_def)
  have c: "\<not> throws lookup_down BcryptCompare
           \<and> bcrypt_compare lookup_down ''hunter2'' (u_password user1) \<and> \<not> u_is_deleted user1"
    by (simp add: lookup_down_def no_faults_def user1_def)
  have "login lookup_down demo_store ''a@x.io'' ''hunter2'' (Some (from_device laptop))
        = factor_decision lookup_down demo_store user1 (Some (from_device laptop))"
    using device_check_fails_open [OF t, of demo_store "''u1''" "Some (from_device laptop)"
        "''a@x.io''" "''hunter2''"] u c
    by blast
  then show ?thesis
    by (simp add: demo_login_blocked demo_factor_decision)
qed


section \<open>Login failures\<close>

text \<open>
  C4 (the code departs from the claim). \<open>login\<close> answers an unknown e-mail address, a
  wrong password and a soft-deleted user with three different responses, so the response
  tells an unknown address from a wrong password.
\<close>

theorem login_errors_differ:
  "fst (login no_faults demo_store ''nobody@x.io'' ''hunter2'' None)
     = Inr (Response_error ''User does not exist'' 404)
   \<and> fst (login no_faults demo_store ''a@x.io'' ''letmein'' None)
     = Inr (Response_error ''Invalid password'' 400)
   \<and> fst (login no_faults demo_store ''d@x.io'' ''old'' None)
     = Inr (Response_error ''User not found'' 404)"
  by (simp add: login_def getByEmail_def no_faults_def demo_store_def user1_def user2_def)

section \<open>The current device cannot be blocked or revoked\<close>

text \<open>
  C9. A block or revoke request for a session whose stored fingerprint (ip, browser, os)
  equals the fingerprint of the calling request leaves the store unchanged; for a
  session of the calling user the response is the cannot-block (cannot-revoke)
  current-device error. Only the three fingerprint fields decide: the same session row
  under any other id is current as well.
\<close>

theorem current_device_protected:
  assumes "getSessionById e s sessionId = Inr (Some session)"
    and "\<not> throws e ExtractDeviceInfo"
    and "ipAddress (device r) = ds_ip_address session"
    and "browser (device r) = ds_browser session"
    and "os (device r) = ds_os session"
  shows "snd (blockDevice e s userId sessionId (Some r)) = s
       \<and> snd (revokeDevice e s userId sessionId (Some r)) = s
       \<and> (ds_user_id session = userId \<longrightarrow>
            blockDevice e s userId sessionId (Some r) =
              (Inr (Response_error ''Cannot block your current device'' 400), s)
          \<and> revokeDevice e s userId sessionId (Some r) =
              (Inr (Response_error ''Cannot revoke your current device session'' 400), s))
       \<and> isCurrentDevice e r (session\<lparr>ds_id := other\<rparr>) = Inr True"
  using assms
  by (simp add: blockDevice_def revokeDevice_def isCurrentDevice_def extractDeviceInfo_def
      same_device_def)

text \<open>User \<open>u1\<close> on the phone asks to block, then to revoke, the phone's own session.\<close>

theorem current_device_protected_witness:
  "blockDevice no_faults two_device_store ''u1'' ''sess-2'' (Some (from_device phone)) =
     (Inr (Response_error ''Cannot block your current device'' 400), two_device_store)
   \<and> revokeDevice no_faults two_device_store ''u1'' ''sess-2'' (Some (from_device phone)) =
     (Inr (Response_error ''Cannot revoke your current device session'' 400), two_device_store)"
proof -
  have g: "getSessionById no_faults two_device_store ''sess-2'' =
             Inr (Some (session_on ''sess-2'' phone False))"
    by (simp add: getSessionById_def no_faults_def two_device_store_def session_on_def)
  have x: "\<not> throws no_faults ExtractDeviceInfo" by (simp add: no_faults_def)
  have f: "ipAddress (device (from_device phone)) = ds_ip_address (session_on ''sess-2'' phone False)"
    "browser (device (from_device phone)) = ds_browser (session_on ''sess-2'' phone False)"
    "os (device (from_device phone)) = ds_os (session_on ''sess-2'' phone False)"
    by (simp_all add: from_device_def session_on_def)
  have o: "ds_user_id (session_on ''sess-2'' phone False) = ''u1''"
    by (simp add: session_on_def)
  show ?thesis
    using current_device_protected [OF g x f, of "''u1''" "''x''"] o by blast
qed

section \<open>Intermediate tokens at the full-session middleware\<close>

lemma business_admin_ignores_temp2FA:
  "authenticateBusinessAdmin e s (Some (Signed (p\<lparr>p_temp2FA := b\<rparr>) ex)) r =
   authenticateBusinessAdmin e s (Some (Signed p ex)) r"
  by (auto simp: authenticateBusinessAdmin_def jwt_verify_def split: sum.splits option.splits)

lemma super_admin_ignores_temp2FA:
  "authenticateSuperAdmin e s (Some (Signed (p\<lparr>p_temp2FA := b\<rparr>) ex)) r =
   authenticateSuperAdmin e s (Some (Signed p ex)) r"
  by (auto simp: authenticateSuperAdmin_def jwt_verify_def split: sum.splits option.splits)

lemma role_selection_token_rejected:
  assumes "p_temp p"
  shows "\<exists>resp. authenticate e s (Some (Signed p ex)) r = (Sent resp, s)"
    and "\<exists>resp. authenticateSuperAdmin e s (Some (Signed p ex)) r = (Sent resp, s)"
    and "\<exists>resp. authenticateBusinessAdmin e s (Some (Signed p ex)) r = (Sent resp, s)"
  using assms
  by (simp_all add: authenticate_def authenticateSuperAdmin_def authenticateBusinessAdmin_def
      jwt_verify_def)

lemma authenticate_rejects_pending:
  assumes "p_temp2FA p"
  shows "\<exists>resp. authenticate e s (Some (Signed p ex)) r = (Sent resp, s)"
  using assms by (simp add: authenticate_def jwt_verify_def)

text \<open>
  C5 (the code departs from the claim). The token that \<open>login\<close> returns to \<open>u1\<close> while
  the second factor is pending is refused by \<open>authenticate\<close>, which tests both \<open>temp\<close>
  and \<open>temp2FA\<close>, and accepted as a full session token by \<open>authenticateBusinessAdmin\<close>
  and by \<open>authenticateSuperAdmin\<close>, which test \<open>temp\<close> only.
\<close>

theorem pending_2fa_token_accepted:
  "fst (login no_faults demo_store ''a@x.io'' ''hunter2'' (Some (from_device phone))) =
     Inr (Response_ok (Require2FA pending_token
        \<lparr>am_authenticator = True, am_oneTimeCode = True, am_securityQuestion = True,
          am_backupCode = True\<rparr> (public user1)))
   \<and> fst (authenticate no_faults demo_store (Some pending_token) (from_device phone)) =
     Sent (Response_error ''Please complete authentication process first'' 401)
   \<and> fst (authenticateBusinessAdmin no_faults demo_store (Some pending_token) (from_device phone)) =
     Next \<lparr>req_user = user1, req_role = ''super_admin''\<rparr>
   \<and> fst (authenticateSuperAdmin no_faults demo_store (Some pending_token) (from_device phone)) =
     Next \<lparr>req_user = user1, req_role = ''super_admin''\<rparr>"
  by (simp add: login_def getByEmail_def isDeviceBlocked_def extractDeviceInfo_def
      getUserSessions_def factor_decision_def get2FASettings_def jwt_sign_def
      no_faults_def demo_store_def user1_def user2_def session_on_def
      from_device_def laptop_def phone_def pending_token_def
      authenticate_def authenticateBusinessAdmin_def authenticateSuperAdmin_def jwt_verify_def
      getById_def ADMIN_ROLES_def getBusinessById_def checkDeviceBlocked_def)

section \<open>Backup codes are single-use\<close>

text \<open>
  Run alone, the query-by-query machine is \<open>verifyBackupCode\<close>; and one request after
  another, a code row is redeemed at most once: the row that matched is no longer among
  the unused rows, and a second presentation of the code fails unless another unused row
  matches it.
\<close>

lemma scan_codes_find:
  assumes "\<forall>x. \<not> throws e x"
  shows "scan_codes e s u c req cs =
     (case find (\<lambda>x. bcrypt_compare e c (bc_code_hash x)) cs of
        None \<Rightarrow> (False, s\<lparr>user_2fa_attempt := user_2fa_attempt s @
                     [attempt_of s u ''backup_code'' False req]\<rparr>)
      | Some sc \<Rightarrow>
          (case filter (\<lambda>x. bc_code_hash x = bc_code_hash sc) (unused_codes s u) of
             [] \<Rightarrow> (True, s\<lparr>user_2fa_attempt := user_2fa_attempt s @
                     [attempt_of s u ''backup_code'' True req]\<rparr>)
           | x # _ \<Rightarrow> (True, (mark_used s (bc_id x))\<lparr>user_2fa_attempt := user_2fa_attempt s @
                     [attempt_of s u ''backup_code'' True req]\<rparr>)))"
  by (induction cs)
     (auto simp: assms log2FAAttempt_def useBackupCode_def attempt_of_def split: list.splits)

lemma alone_agrees:
  assumes "\<forall>x. \<not> throws e x"
  shows "steps e 4 (s, \<lparr>rd_userId = u, rd_code = c, rd_req = req, rd_phase = Start\<rparr>) =
     (snd (verifyBackupCode e s u c req),
      \<lparr>rd_userId = u, rd_code = c, rd_req = req,
        rd_phase = Done (fst (verifyBackupCode e s u c req))\<rparr>)"
  using assms
  by (auto simp: eval_nat_numeral step_def verifyBackupCode_def scan_codes_find attempt_of_def
      split: option.splits list.splits)


lemma first_with_hash:
  "find (\<lambda>x. P (bc_code_hash x)) xs = Some sc \<Longrightarrow>
   \<exists>rest. filter (\<lambda>x. bc_code_hash x = bc_code_hash sc) xs = sc # rest"
proof (induction xs)
  case Nil
  then show ?case by simp
next
  case (Cons x xs)
  show ?case
  proof (cases "P (bc_code_hash x)")
    case True
    then have "sc = x" using Cons.prems by simp
    then show ?thesis by simp
  next
    case False
    then have f: "find (\<lambda>x. P (bc_code_hash x)) xs = Some sc" using Cons.prems by simp
    then have "P (bc_code_hash sc)" by (auto simp: find_Some_iff)
    then have "bc_code_hash x \<noteq> bc_code_hash sc" using False by auto
    then show ?thesis using Cons.IH [OF f] by simp
  qed
qed

lemma verifyBackupCode_result:
  assumes "\<forall>x. \<not> throws e x"
  shows "fst (verifyBackupCode e s u c req) =
           (find (\<lambda>x. bcrypt_compare e c (bc_code_hash x)) (unused_codes s u) \<noteq> None)"
  using assms
  by (auto simp: verifyBackupCode_def scan_codes_find split: option.splits list.splits)

lemma unused_after_mark:
  "unused_codes ((mark_used s i)\<lparr>user_2fa_attempt := l\<rparr>) u =
     filter (\<lambda>x. bc_id x \<noteq> i) (unused_codes s u)"
proof -
  have "filter (\<lambda>c. bc_user_id c = u \<and> \<not> bc_is_used c)
          (map (\<lambda>c. if bc_id c = i then c\<lparr>bc_is_used := True, bc_used_at := Some t\<rparr> else c) xs) =
        filter (\<lambda>x. bc_id x \<noteq> i) (filter (\<lambda>c. bc_user_id c = u \<and> \<not> bc_is_used c) xs)"
    for xs :: "backup_code_row list" and t
    by (induction xs) auto
  then show ?thesis by (simp add: unused_codes_def mark_used_def)
qed

lemma sequential_single_use:
  assumes nf: "\<forall>x. \<not> throws e x"
    and m: "find (\<lambda>x. bcrypt_compare e c (bc_code_hash x)) (unused_codes s u) = Some sc"
  shows "fst (verifyBackupCode e s u c req)"
    and "\<forall>x \<in> set (unused_codes (snd (verifyBackupCode e s u c req)) u). bc_id x \<noteq> bc_id sc"
    and "(\<forall>x \<in> set (unused_codes s u). bcrypt_compare e c (bc_code_hash x) \<longrightarrow> bc_id x = bc_id sc)
         \<Longrightarrow> \<not> fst (verifyBackupCode e (snd (verifyBackupCode e s u c req)) u c req')"
proof -
  obtain rest where r: "filter (\<lambda>x. bc_code_hash x = bc_code_hash sc) (unused_codes s u) = sc # rest"
    using first_with_hash [of "bcrypt_compare e c" "unused_codes s u" sc] m by blast
  have s1: "snd (verifyBackupCode e s u c req) =
      (mark_used s (bc_id sc))\<lparr>user_2fa_attempt := user_2fa_attempt s @
                     [attempt_of s u ''backup_code'' True req]\<rparr>"
    using nf m r by (simp add: verifyBackupCode_def scan_codes_find)
  show "fst (verifyBackupCode e s u c req)"
    using nf m by (simp add: verifyBackupCode_result)
  show u: "\<forall>x \<in> set (unused_codes (snd (verifyBackupCode e s u c req)) u). bc_id x \<noteq> bc_id sc"
    by (simp add: s1 unused_after_mark)
  show "\<not> fst (verifyBackupCode e (snd (verifyBackupCode e s u c req)) u c req')"
    if only: "\<forall>x \<in> set (unused_codes s u). bcrypt_compare e c (bc_code_hash x) \<longrightarrow> bc_id x = bc_id sc"
  proof -
    have "find (\<lambda>x. bcrypt_compare e c (bc_code_hash x))
            (unused_codes (snd (verifyBackupCode e s u c req)) u) = None"
      using only by (auto simp: s1 unused_after_mark find_None_iff)
    then show ?thesis using nf by (simp add: verifyBackupCode_result)
  qed
qed

text \<open>
  C2 (the code departs from the claim). Two requests redeem the only unused code of
  \<open>u1\<close>. The first runs its SELECT, the second runs its SELECT, the first finishes,
  the second finishes: both return true, and the ledger holds two successes.
\<close>

theorem concurrent_redemption_both_succeed:
  "unused_codes demo_store ''u1'' = [code1]
   \<and> rd_phase (fst (snd (run no_faults [True, False, True, True, True, False, False]
        (demo_store, redeem ''u1'' ''ABCD1234'', redeem ''u1'' ''ABCD1234'')))) = Done True
   \<and> rd_phase (snd (snd (run no_faults [True, False, True, True, True, False, False]
        (demo_store, redeem ''u1'' ''ABCD1234'', redeem ''u1'' ''ABCD1234'')))) = Done True
   \<and> map att_success (user_2fa_attempt (fst (run no_faults [True, False, True, True, True, False, False]
        (demo_store, redeem ''u1'' ''ABCD1234'', redeem ''u1'' ''ABCD1234'')))) = [True, True]"
  by (simp add: step_def redeem_def unused_codes_def mark_used_def no_faults_def demo_store_def
      code1_def getClientIp_def)

end
